theory Spec2Isabelle
  imports Complex_Main "HOL-Library.AList" "HOL-Library.Log_Nat"
begin

section \<open>Python values, dictionaries and exceptions\<close>

text \<open>
  The dictionaries handled by \<^verbatim>\<open>app.py\<close> hold JSON-like values whose type is only
  known at run time (the source tests \<^verbatim>\<open>is True\<close>, \<^verbatim>\<open>isinstance(skills, list)\<close> and
  truthiness), so values are a datatype of tagged Python objects. A dictionary is an
  association list in insertion order with unique keys; strings are lists of ASCII
  characters.
\<close>

datatype pyval =
    PNone
  | PBool bool
  | PInt int
  | PStr string
  | PList "pyval list"
  | PDict "(string \<times> pyval) list"

type_synonym dict = "(string \<times> pyval) list"

datatype exn =
    AttributeError
  | HTTPError int
  | RequestException string
  | JSONDecodeError
  | UnicodeDecodeError
  | ExtractionError string
  | IndexError

text \<open>\<^verbatim>\<open>d.get(k)\<close>: the value stored under \<open>k\<close>, \<^verbatim>\<open>None\<close> when the key is missing.\<close>

definition dict_get :: "dict \<Rightarrow> string \<Rightarrow> pyval" where
  "dict_get d k = (case map_of d k of None \<Rightarrow> PNone | Some v \<Rightarrow> v)"

text \<open>\<^verbatim>\<open>d.get(k, default)\<close>.\<close>

definition dict_get_default :: "dict \<Rightarrow> string \<Rightarrow> pyval \<Rightarrow> pyval" where
  "dict_get_default d k dflt = (case map_of d k of None \<Rightarrow> dflt | Some v \<Rightarrow> v)"

text \<open>\<^verbatim>\<open>d[k] = v\<close>: an existing key keeps its position, a new key goes last.\<close>

definition dict_set :: "dict \<Rightarrow> string \<Rightarrow> pyval \<Rightarrow> dict" where
  "dict_set d k v = AList.update k v d"

definition keys :: "dict \<Rightarrow> string list" where
  "keys d = map fst d"

text \<open>Python's truth value of an object, as tested by \<^verbatim>\<open>if x:\<close>.\<close>

fun truthy :: "pyval \<Rightarrow> bool" where
  "truthy PNone = False"
| "truthy (PBool b) = b"
| "truthy (PInt i) = (i \<noteq> 0)"
| "truthy (PStr s) = (s \<noteq> [])"
| "truthy (PList l) = (l \<noteq> [])"
| "truthy (PDict d) = (d \<noteq> [])"

fun isinstance_list :: "pyval \<Rightarrow> bool" where
  "isinstance_list (PList l) = True"
| "isinstance_list v = False"

text \<open>
  \<^verbatim>\<open>str.lower()\<close> on ASCII text: the letters \<open>A\<close> to \<open>Z\<close> move to \<open>a\<close> to \<open>z\<close>,
  everything else stays.
\<close>

definition lower_char :: "char \<Rightarrow> char" where
  "lower_char c =
     (case map_of (zip ''ABCDEFGHIJKLMNOPQRSTUVWXYZ'' ''abcdefghijklmnopqrstuvwxyz'') c of
        None \<Rightarrow> c
      | Some l \<Rightarrow> l)"

definition lower :: "string \<Rightarrow> string" where
  "lower s = map lower_char s"

text \<open>
  \<^verbatim>\<open>v.lower()\<close> on an arbitrary object: only strings have the method, every other
  object raises \<^verbatim>\<open>AttributeError\<close>.
\<close>

fun py_lower :: "pyval \<Rightarrow> exn + string" where
  "py_lower (PStr s) = Inr (lower s)"
| "py_lower v = Inl AttributeError"

section \<open>The query formatter: \<^verbatim>\<open>JobMatcher._format_search_query\<close>\<close>

text \<open>
  The source builds \<^verbatim>\<open>formatted_query\<close> by successive assignments; the model threads
  the dictionary through the same tests in the same order. The only operation that can
  raise is \<^verbatim>\<open>query.get("experience_level").lower()\<close>.
\<close>

definition format_search_query :: "dict \<Rightarrow> exn + dict" where
  "format_search_query query =
     (let formatted_query = [];
          date_posted = dict_get query ''date_posted'';
          formatted_query =
            (if date_posted = PStr ''Last 24 hours''
               then dict_set formatted_query ''posted_at_max_age_days'' (PInt 1)
             else if date_posted = PStr ''Last 7 days''
               then dict_set formatted_query ''posted_at_max_age_days'' (PInt 7)
             else if date_posted = PStr ''Last 30 days''
               then dict_set formatted_query ''posted_at_max_age_days'' (PInt 30)
             else dict_set formatted_query ''posted_at_max_age_days'' (PInt 90));
          formatted_query =
            (if truthy (dict_get query ''company'')
               then dict_set formatted_query ''company_name_or''
                      (PList [dict_get query ''company''])
             else formatted_query);
          formatted_query =
            (if truthy (dict_get query ''title'')
               then dict_set formatted_query ''job_title_contains_any''
                      (PList [dict_get query ''title''])
             else formatted_query);
          formatted_query =
            (if truthy (dict_get query ''location'')
               then dict_set formatted_query ''location_contains_any''
                      (PList [dict_get query ''location''])
             else formatted_query);
          formatted_query =
            (if dict_get query ''remote'' = PBool True
               then dict_set formatted_query ''remote_contains_any'' (PList [PStr ''true''])
             else formatted_query);
          formatted_query =
            (if truthy (dict_get query ''skills'')
               then (let skills = dict_get query ''skills''
                     in if isinstance_list skills \<and> truthy skills
                          then dict_set formatted_query ''technologies_contains_any'' skills
                        else formatted_query)
             else formatted_query)
      in if truthy (dict_get query ''experience_level'')
           then (case py_lower (dict_get query ''experience_level'') of
                   Inl e \<Rightarrow> Inl e
                 | Inr level \<Rightarrow>
                     if level \<in> set [''entry'', ''mid'', ''senior'']
                       then Inr (dict_set formatted_query ''seniority_contains_any''
                                   (PList [PStr level]))
                     else Inr formatted_query)
         else Inr formatted_query)"

section \<open>Helper notions for the formatter's properties\<close>

text \<open>
  Tests on a value used in the statements below: being a string, being a non-empty
  string, being a non-empty list, and being a string or a value that counts as false.
\<close>

fun isinstance_str :: "pyval \<Rightarrow> bool" where
  "isinstance_str (PStr s) = True"
| "isinstance_str v = False"

fun nonempty_str :: "pyval \<Rightarrow> bool" where
  "nonempty_str (PStr s) = (s \<noteq> [])"
| "nonempty_str v = False"

fun nonempty_list :: "pyval \<Rightarrow> bool" where
  "nonempty_list (PList l) = (l \<noteq> [])"
| "nonempty_list v = False"

definition str_or_falsy :: "pyval \<Rightarrow> bool" where
  "str_or_falsy v = (isinstance_str v \<or> \<not> truthy v)"

text \<open>The recency lookup of the formatter: the label's maximum age in days.\<close>

definition max_age_days :: "pyval \<Rightarrow> int" where
  "max_age_days label =
     (if label = PStr ''Last 24 hours'' then 1
      else if label = PStr ''Last 7 days'' then 7
      else if label = PStr ''Last 30 days'' then 30
      else 90)"

text \<open>
  One conditional assignment of the formatter, and the dictionary the formatter has
  built when it reaches the seniority test.
\<close>

definition put_if :: "bool \<Rightarrow> string \<Rightarrow> pyval \<Rightarrow> dict \<Rightarrow> dict" where
  "put_if b k v d = (if b then dict_set d k v else d)"

definition base_filters :: "dict \<Rightarrow> dict" where
  "base_filters q =
     put_if (nonempty_list (dict_get q ''skills'')) ''technologies_contains_any''
       (dict_get q ''skills'')
    (put_if (dict_get q ''remote'' = PBool True) ''remote_contains_any'' (PList [PStr ''true''])
    (put_if (truthy (dict_get q ''location'')) ''location_contains_any''
       (PList [dict_get q ''location''])
    (put_if (truthy (dict_get q ''title'')) ''job_title_contains_any''
       (PList [dict_get q ''title''])
    (put_if (truthy (dict_get q ''company'')) ''company_name_or''
       (PList [dict_get q ''company''])
    (dict_set [] ''posted_at_max_age_days''
       (PInt (max_age_days (dict_get q ''date_posted''))))))))"


section \<open>Floating-point arithmetic of the match scorer\<close>

text \<open>
  \<^verbatim>\<open>calculate_match_score\<close> computes \<^verbatim>\<open>len(matches) / len(required_skills) * 100\<close> and
  \<^verbatim>\<open>round(score, 2)\<close> on Python floats, which are IEEE 754 binary64 numbers. The model
  keeps every float as the rational number it denotes and rounds each operation as the
  hardware does: to the nearest number with a 53-bit significand, a tie going to the
  even significand. All values that occur lie between \<open>2\<^sup>-\<^sup>6\<^sup>3\<close> and 100, inside the
  normal range, so the exponent needs no bounds.

  \<open>rne\<close> rounds a rational to the nearest integer, a tie going to the even integer.
\<close>

definition rne :: "rat \<Rightarrow> int" where
  "rne x =
     (let f = \<lfloor>x\<rfloor>; r = x - of_int f
      in if r < 1 / 2 then f
         else if 1 / 2 < r then f + 1
         else if even f then f else f + 1)"

text \<open>
  The binary exponent of a positive rational \<open>x\<close>, that is the \<open>e\<close> with
  \<open>2\<^sup>e \<le> x < 2\<^sup>e\<^sup>+\<^sup>1\<close>, computed from the bit lengths of numerator and denominator.
\<close>

definition binade :: "rat \<Rightarrow> int" where
  "binade x =
     (let (p, q) = quotient_of x; d = bitlen p - bitlen q
      in if 2 powi d \<le> x then d else d - 1)"

text \<open>
  The binary64 number nearest to \<open>x\<close>: the significand \<open>\<bar>x\<bar> / 2\<^sup>e\<close> with
  \<open>e = binade \<bar>x\<bar> - 52\<close> lies between \<open>2\<^sup>5\<^sup>2\<close> and \<open>2\<^sup>5\<^sup>3\<close> and is rounded to an integer.
\<close>

definition fl :: "rat \<Rightarrow> rat" where
  "fl x =
     (if x = 0 then 0
      else let e = binade \<bar>x\<bar> - 52
           in sgn x * of_int (rne (\<bar>x\<bar> / 2 powi e)) * 2 powi e)"

text \<open>
  \<^verbatim>\<open>round(x, 2)\<close> on a float: Python rounds the exact value of \<open>x\<close> to two decimals, a
  tie going to the even digit, and returns the float nearest to that decimal. The model
  returns the decimal itself (a number of hundredths), which is what the float prints as
  and compares as.
\<close>

definition py_round2 :: "rat \<Rightarrow> rat" where
  "py_round2 x = of_int (rne (x * 100)) / 100"

section \<open>The match scorer: \<^verbatim>\<open>JobMatcher.calculate_match_score\<close>\<close>

text \<open>
  A job posting is a dictionary; the scorer reads only its \<^verbatim>\<open>required_skills\<close> entry, a
  list of skill names that may be missing (\<^verbatim>\<open>job.get("required_skills", [])\<close>). The
  candidate skills are a list of strings. Both become sets before they are compared.
\<close>

record job =
  required_skills :: "string list option"

definition calculate_match_score :: "'a job_scheme \<Rightarrow> string list \<Rightarrow> rat" where
  "calculate_match_score job candidate_skills =
     (let required = set (case required_skills job of None \<Rightarrow> [] | Some skills \<Rightarrow> skills);
          candidate = set candidate_skills
      in if required = {} then 0
         else let matches = required \<inter> candidate;
                  score = fl (fl (of_nat (card matches) / of_nat (card required)) * 100)
              in py_round2 score)"

section \<open>Helper notions for the scorer's properties\<close>

text \<open>The job's set of required skills, and the score as a function of the two set sizes.\<close>

definition required_set :: "'a job_scheme \<Rightarrow> string set" where
  "required_set job = set (case required_skills job of None \<Rightarrow> [] | Some skills \<Rightarrow> skills)"

definition match_percent :: "nat \<Rightarrow> nat \<Rightarrow> rat" where
  "match_percent m n = py_round2 (fl (fl (of_nat m / of_nat n) * 100))"

text \<open>
  Rounding to two decimals as the specification words it, applied to the exact quotient:
  a tie goes up (\<open>round_half_up2\<close>) or to the even digit (\<open>round_half_even2\<close>).
\<close>

definition round_half_up2 :: "rat \<Rightarrow> rat" where
  "round_half_up2 x = of_int \<lfloor>x * 100 + 1 / 2\<rfloor> / 100"

definition round_half_even2 :: "rat \<Rightarrow> rat" where
  "round_half_even2 x = of_int (rne (x * 100)) / 100"

text \<open>A list of \<open>n\<close> distinct skill names: the letter s written once, twice, and so on.\<close>

definition skill_names :: "nat \<Rightarrow> string list" where
  "skill_names n = map (\<lambda>i. replicate i CHR ''s'') [1..<Suc n]"

section \<open>User-interface and log events\<close>

text \<open>
  What a run shows or logs, in order: \<^verbatim>\<open>print\<close> lines on standard output, the HTTP
  request sent, and the Streamlit calls \<^verbatim>\<open>st.error\<close>, \<^verbatim>\<open>st.warning\<close>, \<^verbatim>\<open>st.info\<close>,
  \<^verbatim>\<open>st.write\<close>, \<^verbatim>\<open>st.button\<close> and \<^verbatim>\<open>st.rerun\<close>. Messages are kept structured (the
  format string and its arguments) instead of being rendered to text.
\<close>

datatype message =
    Error_searching_jobs exn
  | Unsupported_file_format string
  | Error_processing_file exn
  | Missing_theirstack_key
  | Error_during_job_search exn
  | No_jobs_found

datatype event =
    Print_sending_query dict
  | Http_post string "(string \<times> string) list" dict
  | Print_api_response int string
  | St_error message
  | St_warning message
  | St_info
  | St_write_debug dict
  | St_error_details exn
  | St_button string
  | St_rerun

section \<open>The job search: \<^verbatim>\<open>JobMatcher.search_jobs\<close>\<close>

text \<open>
  The HTTP library is outside the repository. A call of \<^verbatim>\<open>requests.post\<close> either raises
  or returns a response, of which the code uses the status code, the body text
  (\<^verbatim>\<open>response.text\<close>, here \<open>response_text\<close>),
  \<^verbatim>\<open>raise_for_status()\<close> and \<^verbatim>\<open>json()\<close> (the parsed body, or an exception when the body
  is not JSON). The network is a parameter: a function from the request to its outcome.
\<close>

record response =
  status_code :: int
  response_text :: string
  json :: "exn + pyval"

datatype http_outcome = Raised exn | Returned response

type_synonym network = "string \<Rightarrow> (string \<times> string) list \<Rightarrow> dict \<Rightarrow> http_outcome"

text \<open>
  \<^verbatim>\<open>Response.raise_for_status()\<close> of the requests library raises \<^verbatim>\<open>HTTPError\<close> exactly
  for the client and server error statuses, 400 to 599.
\<close>

definition raise_for_status :: "response \<Rightarrow> exn option" where
  "raise_for_status r =
     (if 400 \<le> status_code r \<and> status_code r < 600 then Some (HTTPError (status_code r))
      else None)"

definition THEIRSTACK_API_URL :: string where
  "THEIRSTACK_API_URL = ''https://api.theirstack.com''"

record job_matcher =
  api_key :: string

definition headers :: "job_matcher \<Rightarrow> (string \<times> string) list" where
  "headers self =
     [(''Authorization'', ''Bearer '' @ api_key self), (''Content-Type'', ''application/json'')]"

text \<open>
  The body of the \<^verbatim>\<open>try\<close> block: its result or the exception that leaves it, with the
  events up to that point.
\<close>

definition search_jobs_try :: "network \<Rightarrow> job_matcher \<Rightarrow> dict \<Rightarrow> (exn + pyval) \<times> event list" where
  "search_jobs_try post self api_query =
     (let trace = [Print_sending_query api_query,
                 Http_post (THEIRSTACK_API_URL @ ''/jobs/search'') (headers self) api_query]
      in case post (THEIRSTACK_API_URL @ ''/jobs/search'') (headers self) api_query of
           Raised e \<Rightarrow> (Inl e, trace)
         | Returned response \<Rightarrow>
             (let trace = (if status_code response \<noteq> 200
                         then trace @ [Print_api_response (status_code response) (response_text response)]
                         else trace)
              in case raise_for_status response of
                   Some e \<Rightarrow> (Inl e, trace)
                 | None \<Rightarrow> (json response, trace)))"

text \<open>
  \<^verbatim>\<open>search_jobs\<close>: the query is formatted before the \<^verbatim>\<open>try\<close>, so an exception of the
  formatter leaves the function; every exception of the \<^verbatim>\<open>try\<close> block is caught,
  reported with \<^verbatim>\<open>st.error\<close> and answered with the empty list.
\<close>

definition search_jobs :: "network \<Rightarrow> job_matcher \<Rightarrow> dict \<Rightarrow> (exn + pyval) \<times> event list" where
  "search_jobs post self query =
     (case format_search_query query of
        Inl e \<Rightarrow> (Inl e, [])
      | Inr api_query \<Rightarrow>
          (case search_jobs_try post self api_query of
             (Inl e, trace) \<Rightarrow> (Inr (PList []), trace @ [St_error (Error_searching_jobs e)])
           | (Inr jobs, trace) \<Rightarrow> (Inr jobs, trace)))"

section \<open>Helper notions for the search's properties\<close>

fun is_http_post :: "event \<Rightarrow> bool" where
  "is_http_post (Http_post url hs q) = True"
| "is_http_post ev = False"

section \<open>Document extraction: \<^verbatim>\<open>process_uploaded_file\<close>\<close>

text \<open>
  An uploaded file has a name and its bytes. The document libraries are outside the
  repository and are parameters of the model: \<^verbatim>\<open>PyPDF2.PdfReader\<close> (it may raise;
  otherwise it gives the pages, each with the outcome of \<^verbatim>\<open>extract_text()\<close>),
  \<^verbatim>\<open>docx.Document\<close> (it may raise; otherwise the paragraphs' texts), and decoding the
  bytes as UTF-8 (it may raise).
\<close>

record uploaded_file =
  name :: string
  content :: string

record extractors =
  pdf_reader :: "string \<Rightarrow> exn + (exn + string) list"
  docx_document :: "string \<Rightarrow> exn + string list"
  decode_utf8 :: "string \<Rightarrow> exn + string"

text \<open>\<^verbatim>\<open>s.split(sep)\<close> for a one-character separator: the pieces between separators.\<close>

fun split_on :: "char \<Rightarrow> string \<Rightarrow> string list" where
  "split_on sep [] = [[]]"
| "split_on sep (c # cs) =
     (if c = sep then [] # split_on sep cs
      else (case split_on sep cs of
              [] \<Rightarrow> [[c]]
            | p # ps \<Rightarrow> (c # p) # ps))"

text \<open>\<^verbatim>\<open>xs[-1]\<close>: the last element, \<^verbatim>\<open>IndexError\<close> on an empty list.\<close>

definition py_last :: "'a list \<Rightarrow> exn + 'a" where
  "py_last xs = (if xs = [] then Inl IndexError else Inr (last xs))"

text \<open>\<^verbatim>\<open>sep.join(parts)\<close>.\<close>

fun join :: "string \<Rightarrow> string list \<Rightarrow> string" where
  "join sep [] = []"
| "join sep [p] = p"
| "join sep (p # q # ps) = p @ sep @ join sep (q # ps)"

text \<open>
  The loop \<^verbatim>\<open>for page in pdf_reader.pages: text += page.extract_text()\<close>; it stops at the
  first page whose extraction raises.
\<close>

fun extract_pages :: "(exn + string) list \<Rightarrow> string \<Rightarrow> exn + string" where
  "extract_pages [] txt = Inr txt"
| "extract_pages (page # pages) txt =
     (case page of
        Inl e \<Rightarrow> Inl e
      | Inr t \<Rightarrow> extract_pages pages (txt @ t))"

text \<open>The body of the \<^verbatim>\<open>try\<close> block: the text or \<^verbatim>\<open>None\<close>, or the exception that leaves
  it, with the events shown.\<close>

definition process_uploaded_file_try ::
    "extractors \<Rightarrow> uploaded_file \<Rightarrow> string \<Rightarrow> (exn + string option) \<times> event list" where
  "process_uploaded_file_try lib uploaded_file file_extension =
     (if file_extension = ''pdf'' then
        (case pdf_reader lib (content uploaded_file) of
           Inl e \<Rightarrow> (Inl e, [])
         | Inr pages \<Rightarrow>
             (case extract_pages pages [] of
                Inl e \<Rightarrow> (Inl e, [])
              | Inr txt \<Rightarrow> (Inr (Some txt), [])))
      else if file_extension = ''docx'' then
        (case docx_document lib (content uploaded_file) of
           Inl e \<Rightarrow> (Inl e, [])
         | Inr paragraphs \<Rightarrow> (Inr (Some (join [CHR 0x0A] paragraphs)), []))
      else if file_extension = ''txt'' then
        (case decode_utf8 lib (content uploaded_file) of
           Inl e \<Rightarrow> (Inl e, [])
         | Inr txt \<Rightarrow> (Inr (Some txt), []))
      else (Inr None, [St_error (Unsupported_file_format file_extension)]))"

text \<open>
  \<^verbatim>\<open>process_uploaded_file\<close>: no file gives \<^verbatim>\<open>None\<close>; the extension is computed before
  the \<^verbatim>\<open>try\<close>; an exception of the \<^verbatim>\<open>try\<close> block is reported and answered with
  \<^verbatim>\<open>None\<close>.
\<close>

definition process_uploaded_file ::
    "extractors \<Rightarrow> uploaded_file option \<Rightarrow> (exn + string option) \<times> event list" where
  "process_uploaded_file lib uploaded_file =
     (case uploaded_file of
        None \<Rightarrow> (Inr None, [])
      | Some f \<Rightarrow>
          (case py_last (split_on CHR ''.'' (name f)) of
             Inl e \<Rightarrow> (Inl e, [])
           | Inr part \<Rightarrow>
               (let file_extension = lower part
                in case process_uploaded_file_try lib f file_extension of
                     (Inl e, trace) \<Rightarrow> (Inr None, trace @ [St_error (Error_processing_file e)])
                   | (Inr txt, trace) \<Rightarrow> (Inr txt, trace))))"

section \<open>Helper notions for the extraction's properties\<close>

text \<open>The extension the code derives from a file name.\<close>

definition declared_extension :: "string \<Rightarrow> string" where
  "declared_extension file_name = lower (last (split_on CHR ''.'' file_name))"

section \<open>The searching step of \<^verbatim>\<open>main\<close>\<close>

text \<open>
  The session state of the wizard: the current step (1 upload, 2 preferences, 3 search,
  4 results) and what the earlier steps stored. An entry that was never stored is
  \<open>None\<close>.
\<close>

record session =
  step :: int
  resume_analysis :: "dict option"
  job_preferences :: "dict option"
  jobs :: "pyval option"

text \<open>The query that step 3 builds from the stored analysis and preferences.\<close>

definition search_query :: "session \<Rightarrow> dict" where
  "search_query session_state =
     (let analysis = (case resume_analysis session_state of None \<Rightarrow> [] | Some a \<Rightarrow> a);
          preferences = (case job_preferences session_state of None \<Rightarrow> [] | Some p \<Rightarrow> p)
      in [(''title'', dict_get_default preferences ''title'' (PStr '''')),
          (''location'', dict_get_default preferences ''location'' (PStr '''')),
          (''company'', dict_get_default preferences ''company'' (PStr '''')),
          (''remote'', PBool (dict_get preferences ''remote'' = PStr ''Remote only'')),
          (''date_posted'', dict_get_default preferences ''date_posted'' (PStr ''Last 30 days'')),
          (''skills'', dict_get_default analysis ''technical_skills'' (PList [])),
          (''experience_level'', dict_get_default analysis ''seniority_level'' (PStr ''''))])"

text \<open>
  One run of the script in step 3 (the branch \<^verbatim>\<open>elif st.session_state.step == 3\<close>).
  Its inputs are the network, the API key typed in the sidebar, and whether the
  "Adjust Preferences" button reports a click in this run; it returns the session state
  at the end of the run and the events of the run. \<^verbatim>\<open>st.rerun()\<close> ends the run; the
  exception it raises is not an \<^verbatim>\<open>Exception\<close>, so the \<^verbatim>\<open>except\<close> clause does not catch
  it.
\<close>

definition main_step3 :: "network \<Rightarrow> string \<Rightarrow> bool \<Rightarrow> session \<Rightarrow> session \<times> event list" where
  "main_step3 post theirstack_api_key adjust_clicked session_state =
     (if theirstack_api_key = [] then (session_state, [St_error Missing_theirstack_key])
      else
        (let matcher = \<lparr>api_key = theirstack_api_key\<rparr>;
             query = search_query session_state
         in case search_jobs post matcher query of
              (Inl e, trace) \<Rightarrow>
                (session_state,
                 St_write_debug query # trace
                   @ [St_error (Error_during_job_search e), St_info, St_error_details e])
            | (Inr found_jobs, trace) \<Rightarrow>
                if truthy found_jobs
                  then (session_state\<lparr>jobs := Some found_jobs, step := 4\<rparr>,
                        St_write_debug query # trace @ [St_rerun])
                else if adjust_clicked
                  then (session_state\<lparr>step := 2\<rparr>,
                        St_write_debug query # trace
                          @ [St_warning No_jobs_found, St_button ''Adjust Preferences'', St_rerun])
                else (session_state,
                      St_write_debug query # trace
                        @ [St_warning No_jobs_found, St_button ''Adjust Preferences''])))"
section \<open>Properties of the query formatter\<close>

lemma truthy_str: "str_or_falsy v \<Longrightarrow> truthy v = nonempty_str v"
  by (cases v) (auto simp: str_or_falsy_def)

lemma py_lower_ok: "str_or_falsy v \<Longrightarrow> truthy v \<Longrightarrow> \<exists>s. v = PStr s \<and> py_lower v = Inr (lower s)"
  by (cases v) (auto simp: str_or_falsy_def)

lemma recency_if:
  "(if L = PStr ''Last 24 hours'' then dict_set d K (PInt 1)
    else if L = PStr ''Last 7 days'' then dict_set d K (PInt 7)
    else if L = PStr ''Last 30 days'' then dict_set d K (PInt 30)
    else dict_set d K (PInt 90)) = dict_set d K (PInt (max_age_days L))"
  by (simp add: max_age_days_def)

lemma skills_if:
  "(if truthy sk then put_if (isinstance_list sk \<and> truthy sk) k sk d else d)
     = put_if (nonempty_list sk) k sk d"
  by (cases sk) (simp_all add: put_if_def)

lemma format_search_query_stages:
  "format_search_query q =
     (if truthy (dict_get q ''experience_level'')
        then (case py_lower (dict_get q ''experience_level'') of
                Inl e \<Rightarrow> Inl e
              | Inr level \<Rightarrow>
                  Inr (put_if (level \<in> set [''entry'', ''mid'', ''senior''])
                         ''seniority_contains_any'' (PList [PStr level]) (base_filters q)))
      else Inr (base_filters q))"
proof -
  have lvl: "(if b then Inr (dict_set d k v) else Inr d) = (Inr (put_if b k v d) :: exn + dict)"
    for b d k v by (simp add: put_if_def)
  have stage: "(if b then dict_set d k v else d) = put_if b k v d" for b d k v
    by (simp add: put_if_def)
  show ?thesis
    unfolding format_search_query_def Let_def base_filters_def recency_if lvl stage
    unfolding skills_if
    by (rule refl)
qed

lemma map_of_put_if:
  "map_of (put_if b k v d) k' = (if b \<and> k' = k then Some v else map_of d k')"
  by (simp add: put_if_def dict_set_def update_conv')

lemma map_of_dict_set:
  "map_of (dict_set d k v) k' = (if k' = k then Some v else map_of d k')"
  by (simp add: dict_set_def update_conv')

lemma keys_put_if:
  "set (keys (put_if b k v d)) = (if b then insert k (set (keys d)) else set (keys d))"
  by (simp add: put_if_def dict_set_def keys_def dom_update)

lemma keys_put_if_subset:
  "set (keys d) \<subseteq> K \<Longrightarrow> k \<in> K \<Longrightarrow> set (keys (put_if b k v d)) \<subseteq> K"
  by (simp add: keys_put_if)

lemma map_of_base_posted:
  "map_of (base_filters q) ''posted_at_max_age_days'' = Some (PInt (max_age_days (dict_get q ''date_posted'')))"
  by (simp add: base_filters_def map_of_put_if map_of_dict_set)


lemma keys_base_filters:
  "set (keys (base_filters q)) \<subseteq>
     {''posted_at_max_age_days'', ''company_name_or'', ''job_title_contains_any'',
      ''location_contains_any'', ''remote_contains_any'', ''technologies_contains_any''}"
  unfolding base_filters_def keys_put_if by (auto simp: keys_def dict_set_def)

lemma values_dict_set: "snd ` set (dict_set d k v) \<subseteq> insert v (snd ` set d)"
  unfolding dict_set_def by (induction d) auto

lemma values_put_if: "snd ` set (put_if b k v d) \<subseteq> insert v (snd ` set d)"
  using values_dict_set [of d k v] by (auto simp: put_if_def)

lemma no_null_put_if:
  "PNone \<notin> snd ` set d \<Longrightarrow> v \<noteq> PNone \<Longrightarrow> PNone \<notin> snd ` set (put_if b k v d)"
  using values_put_if [of b k v d] by auto

lemma no_null_put_if_list:
  "PNone \<notin> snd ` set d \<Longrightarrow> PNone \<notin> snd ` set (put_if (nonempty_list v) k v d)"
proof (cases "nonempty_list v")
  case True
  then have "v \<noteq> PNone" by auto
  then show "PNone \<notin> snd ` set d \<Longrightarrow> ?thesis" by (rule no_null_put_if [rotated])
next
  case False
  then show "PNone \<notin> snd ` set d \<Longrightarrow> ?thesis" by (simp add: put_if_def)
qed

lemma no_null_base_filters: "PNone \<notin> snd ` set (base_filters q)"
  unfolding base_filters_def
  by (intro no_null_put_if_list no_null_put_if) (simp_all add: dict_set_def)

text \<open>
  Claim C3. For every preference record whose seniority entry is a string or counts
  as false (so that lower-casing it cannot raise), the formatter returns a query that
  holds the key \<^verbatim>\<open>posted_at_max_age_days\<close>: 1 for the label "Last 24 hours", 7 for
  "Last 7 days", 30 for "Last 30 days" and 90 for every other label, a missing one
  included. The required recency filter is therefore always present.
\<close>

theorem format_query_recency:
  assumes "str_or_falsy (dict_get q ''experience_level'')"
  shows "\<exists>fq d. format_search_query q = Inr fq \<and>
           map_of fq ''posted_at_max_age_days'' = Some (PInt d) \<and>
           (dict_get q ''date_posted'' = PStr ''Last 24 hours'' \<longrightarrow> d = 1) \<and>
           (dict_get q ''date_posted'' = PStr ''Last 7 days'' \<longrightarrow> d = 7) \<and>
           (dict_get q ''date_posted'' = PStr ''Last 30 days'' \<longrightarrow> d = 30) \<and>
           (dict_get q ''date_posted'' \<notin>
              {PStr ''Last 24 hours'', PStr ''Last 7 days'', PStr ''Last 30 days''} \<longrightarrow> d = 90)"
proof -
  let ?d = "max_age_days (dict_get q ''date_posted'')"
  have ex: "\<exists>fq. format_search_query q = Inr fq \<and>
              map_of fq ''posted_at_max_age_days'' = Some (PInt ?d)"
  proof (cases "truthy (dict_get q ''experience_level'')")
    case True
    from py_lower_ok [OF assms True] obtain s where
      "dict_get q ''experience_level'' = PStr s" by blast
    then show ?thesis
      by (simp add: format_search_query_stages map_of_put_if map_of_base_posted)
  next
    case False
    then show ?thesis
      by (simp add: format_search_query_stages map_of_base_posted)
  qed
  have "(dict_get q ''date_posted'' = PStr ''Last 24 hours'' \<longrightarrow> ?d = 1) \<and>
        (dict_get q ''date_posted'' = PStr ''Last 7 days'' \<longrightarrow> ?d = 7) \<and>
        (dict_get q ''date_posted'' = PStr ''Last 30 days'' \<longrightarrow> ?d = 30) \<and>
        (dict_get q ''date_posted'' \<notin>
              {PStr ''Last 24 hours'', PStr ''Last 7 days'', PStr ''Last 30 days''} \<longrightarrow> ?d = 90)"
    by (simp add: max_age_days_def)
  with ex show ?thesis by blast
qed

text \<open>The theorem applied to a record with the label "Last 7 days".\<close>

theorem format_query_recency_witness:
  "str_or_falsy (dict_get [(''date_posted'', PStr ''Last 7 days''), (''experience_level'', PStr ''Mid'')]
      ''experience_level'') \<and>
   (\<exists>fq. format_search_query
            [(''date_posted'', PStr ''Last 7 days''), (''experience_level'', PStr ''Mid'')] = Inr fq \<and>
         map_of fq ''posted_at_max_age_days'' = Some (PInt 7))"
proof -
  let ?q = "[(''date_posted'', PStr ''Last 7 days''), (''experience_level'', PStr ''Mid'')]"
  have h: "str_or_falsy (dict_get ?q ''experience_level'')"
    by (simp add: str_or_falsy_def dict_get_def)
  have d: "dict_get ?q ''date_posted'' = PStr ''Last 7 days''"
    by (simp add: dict_get_def)
  from format_query_recency [OF h] d h show ?thesis by metis
qed


lemma map_of_base_company:
  "map_of (base_filters q) ''company_name_or'' =
     (if truthy (dict_get q ''company'') then Some (PList [dict_get q ''company'']) else None)"
  by (simp add: base_filters_def map_of_put_if map_of_dict_set)

lemma map_of_base_title:
  "map_of (base_filters q) ''job_title_contains_any'' =
     (if truthy (dict_get q ''title'') then Some (PList [dict_get q ''title'']) else None)"
  by (simp add: base_filters_def map_of_put_if map_of_dict_set)

lemma map_of_base_location:
  "map_of (base_filters q) ''location_contains_any'' =
     (if truthy (dict_get q ''location'') then Some (PList [dict_get q ''location'']) else None)"
  by (simp add: base_filters_def map_of_put_if map_of_dict_set)

lemma map_of_base_remote:
  "map_of (base_filters q) ''remote_contains_any'' =
     (if dict_get q ''remote'' = PBool True then Some (PList [PStr ''true'']) else None)"
  by (simp add: base_filters_def map_of_put_if map_of_dict_set)

lemma map_of_base_skills:
  "map_of (base_filters q) ''technologies_contains_any'' =
     (if nonempty_list (dict_get q ''skills'') then Some (dict_get q ''skills'') else None)"
  by (simp add: base_filters_def map_of_put_if map_of_dict_set)

lemma map_of_base_seniority:
  "map_of (base_filters q) ''seniority_contains_any'' = None"
  by (simp add: base_filters_def map_of_put_if map_of_dict_set)

lemmas map_of_base =
  map_of_base_posted map_of_base_company map_of_base_title map_of_base_location
  map_of_base_remote map_of_base_skills map_of_base_seniority

text \<open>
  The formatter's result when the seniority entry is a string or counts as false: the
  dictionary built so far, with the seniority filter added for an accepted level.
\<close>

lemma format_search_query_typed:
  assumes "str_or_falsy (dict_get q ''experience_level'')"
  shows "format_search_query q =
           Inr (case dict_get q ''experience_level'' of
                  PStr s \<Rightarrow>
                    put_if (lower s \<in> {''entry'', ''mid'', ''senior''})
                      ''seniority_contains_any'' (PList [PStr (lower s)]) (base_filters q)
                | _ \<Rightarrow> base_filters q)"
proof (cases "truthy (dict_get q ''experience_level'')")
  case True
  from py_lower_ok [OF assms True] obtain s where
    s: "dict_get q ''experience_level'' = PStr s" by blast
  with True have "s \<noteq> []" by simp
  with s show ?thesis
    by (simp add: format_search_query_stages)
next
  case False
  then show ?thesis
    by (cases "dict_get q ''experience_level''")
       (simp_all add: format_search_query_stages put_if_def lower_def)
qed

lemma format_example:
  "format_search_query
     [(''title'', PStr ''''), (''company'', PStr ''Acme''), (''remote'', PBool True),
      (''date_posted'', PStr ''Last 7 days''), (''skills'', PList [PStr ''Python'']),
      (''experience_level'', PStr ''senior'')] =
   Inr [(''posted_at_max_age_days'', PInt 7), (''company_name_or'', PList [PStr ''Acme'']),
        (''remote_contains_any'', PList [PStr ''true'']),
        (''technologies_contains_any'', PList [PStr ''Python'']),
        (''seniority_contains_any'', PList [PStr ''senior''])]"
  by code_simp

text \<open>
  Claim C4. For every preference record whose company, title, location and seniority
  entries are strings or count as false, the formatter returns a query in which
  \<^item> the company, title and location filters are present exactly when the respective
    string is non-empty, and then hold that string as a one-element list;
  \<^item> the remote filter is present exactly when the remote flag is the object \<^verbatim>\<open>True\<close>;
  \<^item> the technologies filter is present exactly when the skills are a non-empty list,
    and then is that list;
  \<^item> the seniority filter is present exactly when the lower-cased seniority string is
    one of entry, mid, senior, and then holds the lower-cased string;
  \<^item> no other key than the seven filter keys occurs and no key holds \<^verbatim>\<open>None\<close>, so a
    missing source value never yields a key.

  The example record of the specification formats to exactly the query given there.
\<close>

theorem format_query_filters:
  assumes "str_or_falsy (dict_get q ''company'')"
    and "str_or_falsy (dict_get q ''title'')"
    and "str_or_falsy (dict_get q ''location'')"
    and "str_or_falsy (dict_get q ''experience_level'')"
  shows "(\<exists>fq. format_search_query q = Inr fq \<and>
            map_of fq ''company_name_or'' =
              (if nonempty_str (dict_get q ''company'')
               then Some (PList [dict_get q ''company'']) else None) \<and>
            map_of fq ''job_title_contains_any'' =
              (if nonempty_str (dict_get q ''title'')
               then Some (PList [dict_get q ''title'']) else None) \<and>
            map_of fq ''location_contains_any'' =
              (if nonempty_str (dict_get q ''location'')
               then Some (PList [dict_get q ''location'']) else None) \<and>
            map_of fq ''remote_contains_any'' =
              (if dict_get q ''remote'' = PBool True
               then Some (PList [PStr ''true'']) else None) \<and>
            map_of fq ''technologies_contains_any'' =
              (if nonempty_list (dict_get q ''skills'')
               then Some (dict_get q ''skills'') else None) \<and>
            map_of fq ''seniority_contains_any'' =
              (case dict_get q ''experience_level'' of
                 PStr s \<Rightarrow>
                   if lower s \<in> {''entry'', ''mid'', ''senior''}
                   then Some (PList [PStr (lower s)]) else None
               | _ \<Rightarrow> None) \<and>
            set (keys fq) \<subseteq>
              {''posted_at_max_age_days'', ''company_name_or'', ''job_title_contains_any'',
               ''location_contains_any'', ''remote_contains_any'',
               ''technologies_contains_any'', ''seniority_contains_any''} \<and>
            PNone \<notin> snd ` set fq) \<and>
         format_search_query
           [(''title'', PStr ''''), (''company'', PStr ''Acme''), (''remote'', PBool True),
            (''date_posted'', PStr ''Last 7 days''), (''skills'', PList [PStr ''Python'']),
            (''experience_level'', PStr ''senior'')] =
         Inr [(''posted_at_max_age_days'', PInt 7),
              (''company_name_or'', PList [PStr ''Acme'']),
              (''remote_contains_any'', PList [PStr ''true'']),
              (''technologies_contains_any'', PList [PStr ''Python'']),
              (''seniority_contains_any'', PList [PStr ''senior''])]"
proof (rule conjI)
  let ?lvl = "dict_get q ''experience_level''"
  let ?fq = "case ?lvl of
               PStr s \<Rightarrow>
                 put_if (lower s \<in> {''entry'', ''mid'', ''senior''})
                   ''seniority_contains_any'' (PList [PStr (lower s)]) (base_filters q)
             | _ \<Rightarrow> base_filters q"
  note tr = truthy_str [OF assms(1)] truthy_str [OF assms(2)] truthy_str [OF assms(3)]
  have res: "format_search_query q = Inr ?fq"
    by (rule format_search_query_typed [OF assms(4)])
  have vals:
    "map_of ?fq ''company_name_or'' =
       (if nonempty_str (dict_get q ''company'')
        then Some (PList [dict_get q ''company'']) else None)"
    "map_of ?fq ''job_title_contains_any'' =
       (if nonempty_str (dict_get q ''title'')
        then Some (PList [dict_get q ''title'']) else None)"
    "map_of ?fq ''location_contains_any'' =
       (if nonempty_str (dict_get q ''location'')
        then Some (PList [dict_get q ''location'']) else None)"
    "map_of ?fq ''remote_contains_any'' =
       (if dict_get q ''remote'' = PBool True then Some (PList [PStr ''true'']) else None)"
    "map_of ?fq ''technologies_contains_any'' =
       (if nonempty_list (dict_get q ''skills'') then Some (dict_get q ''skills'') else None)"
    "map_of ?fq ''seniority_contains_any'' =
       (case ?lvl of
          PStr s \<Rightarrow>
            if lower s \<in> {''entry'', ''mid'', ''senior''}
            then Some (PList [PStr (lower s)]) else None
        | _ \<Rightarrow> None)"
    by (cases ?lvl; simp add: map_of_put_if map_of_base tr)+
  have ks: "set (keys ?fq) \<subseteq>
              {''posted_at_max_age_days'', ''company_name_or'', ''job_title_contains_any'',
               ''location_contains_any'', ''remote_contains_any'',
               ''technologies_contains_any'', ''seniority_contains_any''}"
  proof -
    have "set (keys (base_filters q)) \<subseteq>
            {''posted_at_max_age_days'', ''company_name_or'', ''job_title_contains_any'',
             ''location_contains_any'', ''remote_contains_any'',
             ''technologies_contains_any'', ''seniority_contains_any''}"
      using keys_base_filters [of q] by (rule subset_trans) simp
    then show ?thesis
      by (cases ?lvl) (simp_all add: keys_put_if_subset)
  qed
  have nn: "PNone \<notin> snd ` set ?fq"
    using no_null_base_filters [of q]
    by (cases ?lvl) (simp_all add: no_null_put_if)
  show "\<exists>fq. format_search_query q = Inr fq \<and>
            map_of fq ''company_name_or'' =
              (if nonempty_str (dict_get q ''company'')
               then Some (PList [dict_get q ''company'']) else None) \<and>
            map_of fq ''job_title_contains_any'' =
              (if nonempty_str (dict_get q ''title'')
               then Some (PList [dict_get q ''title'']) else None) \<and>
            map_of fq ''location_contains_any'' =
              (if nonempty_str (dict_get q ''location'')
               then Some (PList [dict_get q ''location'']) else None) \<and>
            map_of fq ''remote_contains_any'' =
              (if dict_get q ''remote'' = PBool True
               then Some (PList [PStr ''true'']) else None) \<and>
            map_of fq ''technologies_contains_any'' =
              (if nonempty_list (dict_get q ''skills'')
               then Some (dict_get q ''skills'') else None) \<and>
            map_of fq ''seniority_contains_any'' =
              (case dict_get q ''experience_level'' of
                 PStr s \<Rightarrow>
                   if lower s \<in> {''entry'', ''mid'', ''senior''}
                   then Some (PList [PStr (lower s)]) else None
               | _ \<Rightarrow> None) \<and>
            set (keys fq) \<subseteq>
              {''posted_at_max_age_days'', ''company_name_or'', ''job_title_contains_any'',
               ''location_contains_any'', ''remote_contains_any'',
               ''technologies_contains_any'', ''seniority_contains_any''} \<and>
            PNone \<notin> snd ` set fq"
    by (rule exI [where x = ?fq]) (intro conjI res vals ks nn)
next
  show "format_search_query
           [(''title'', PStr ''''), (''company'', PStr ''Acme''), (''remote'', PBool True),
            (''date_posted'', PStr ''Last 7 days''), (''skills'', PList [PStr ''Python'']),
            (''experience_level'', PStr ''senior'')] =
         Inr [(''posted_at_max_age_days'', PInt 7),
              (''company_name_or'', PList [PStr ''Acme'']),
              (''remote_contains_any'', PList [PStr ''true'']),
              (''technologies_contains_any'', PList [PStr ''Python'']),
              (''seniority_contains_any'', PList [PStr ''senior''])]"
    by (rule format_example)
qed

text \<open>
  The theorem applied to a record with a title, an upper-case seniority and a remote
  preference that is a string, not the object \<^verbatim>\<open>True\<close>.
\<close>

theorem format_query_filters_witness:
  "str_or_falsy (dict_get [(''title'', PStr ''Data Engineer''), (''company'', PStr ''''),
       (''remote'', PStr ''Remote only''), (''experience_level'', PStr ''Senior'')] ''company'') \<and>
   str_or_falsy (dict_get [(''title'', PStr ''Data Engineer''), (''company'', PStr ''''),
       (''remote'', PStr ''Remote only''), (''experience_level'', PStr ''Senior'')] ''title'') \<and>
   str_or_falsy (dict_get [(''title'', PStr ''Data Engineer''), (''company'', PStr ''''),
       (''remote'', PStr ''Remote only''), (''experience_level'', PStr ''Senior'')] ''location'') \<and>
   str_or_falsy (dict_get [(''title'', PStr ''Data Engineer''), (''company'', PStr ''''),
       (''remote'', PStr ''Remote only''), (''experience_level'', PStr ''Senior'')]
       ''experience_level'') \<and>
   (\<exists>fq. format_search_query [(''title'', PStr ''Data Engineer''), (''company'', PStr ''''),
            (''remote'', PStr ''Remote only''), (''experience_level'', PStr ''Senior'')] = Inr fq \<and>
         map_of fq ''job_title_contains_any'' = Some (PList [PStr ''Data Engineer'']) \<and>
         map_of fq ''company_name_or'' = None \<and>
         map_of fq ''remote_contains_any'' = None \<and>
         map_of fq ''seniority_contains_any'' = Some (PList [PStr ''senior'']))"
proof -
  let ?q = "[(''title'', PStr ''Data Engineer''), (''company'', PStr ''''),
             (''remote'', PStr ''Remote only''), (''experience_level'', PStr ''Senior'')]"
  have g: "dict_get ?q ''company'' = PStr ''''"
    "dict_get ?q ''title'' = PStr ''Data Engineer''"
    "dict_get ?q ''location'' = PNone"
    "dict_get ?q ''experience_level'' = PStr ''Senior''"
    "dict_get ?q ''remote'' = PStr ''Remote only''"
    by (simp_all add: dict_get_def)
  have l: "lower ''Senior'' = ''senior''"
    by (simp add: lower_def lower_char_def)
  have h: "str_or_falsy (dict_get ?q ''company'')" "str_or_falsy (dict_get ?q ''title'')"
    "str_or_falsy (dict_get ?q ''location'')" "str_or_falsy (dict_get ?q ''experience_level'')"
    by (simp_all add: g str_or_falsy_def)
  from format_query_filters [OF h] obtain fq where
    "format_search_query ?q = Inr fq"
    "map_of fq ''company_name_or'' =
       (if nonempty_str (dict_get ?q ''company'')
        then Some (PList [dict_get ?q ''company'']) else None)"
    "map_of fq ''job_title_contains_any'' =
       (if nonempty_str (dict_get ?q ''title'')
        then Some (PList [dict_get ?q ''title'']) else None)"
    "map_of fq ''remote_contains_any'' =
       (if dict_get ?q ''remote'' = PBool True then Some (PList [PStr ''true'']) else None)"
    "map_of fq ''seniority_contains_any'' =
       (case dict_get ?q ''experience_level'' of
          PStr s \<Rightarrow>
            if lower s \<in> {''entry'', ''mid'', ''senior''}
            then Some (PList [PStr (lower s)]) else None
        | _ \<Rightarrow> None)"
    by blast
  then have "format_search_query ?q = Inr fq \<and>
         map_of fq ''job_title_contains_any'' = Some (PList [PStr ''Data Engineer'']) \<and>
         map_of fq ''company_name_or'' = None \<and>
         map_of fq ''remote_contains_any'' = None \<and>
         map_of fq ''seniority_contains_any'' = Some (PList [PStr ''senior''])"
    by (simp add: g l)
  then have "\<exists>fq. format_search_query ?q = Inr fq \<and>
         map_of fq ''job_title_contains_any'' = Some (PList [PStr ''Data Engineer'']) \<and>
         map_of fq ''company_name_or'' = None \<and>
         map_of fq ''remote_contains_any'' = None \<and>
         map_of fq ''seniority_contains_any'' = Some (PList [PStr ''senior''])"
    by (rule exI [where x = fq])
  with h show ?thesis by (intro conjI)
qed

text \<open>
  Claim C5 as stated fails: a record without title, company, location and skills still
  gets the remote filter when its remote flag is \<^verbatim>\<open>True\<close> and the seniority filter when
  its seniority is an accepted level. The record below has all four entries empty and
  formats to three keys.
\<close>

theorem format_query_single_key_counterexample:
  "\<not> truthy (dict_get [(''title'', PStr ''''), (''location'', PStr ''''), (''company'', PStr ''''),
        (''remote'', PBool True), (''date_posted'', PStr ''Last 90 days''),
        (''skills'', PList []), (''experience_level'', PStr ''senior'')] ''title'') \<and>
   \<not> truthy (dict_get [(''title'', PStr ''''), (''location'', PStr ''''), (''company'', PStr ''''),
        (''remote'', PBool True), (''date_posted'', PStr ''Last 90 days''),
        (''skills'', PList []), (''experience_level'', PStr ''senior'')] ''company'') \<and>
   \<not> truthy (dict_get [(''title'', PStr ''''), (''location'', PStr ''''), (''company'', PStr ''''),
        (''remote'', PBool True), (''date_posted'', PStr ''Last 90 days''),
        (''skills'', PList []), (''experience_level'', PStr ''senior'')] ''location'') \<and>
   \<not> truthy (dict_get [(''title'', PStr ''''), (''location'', PStr ''''), (''company'', PStr ''''),
        (''remote'', PBool True), (''date_posted'', PStr ''Last 90 days''),
        (''skills'', PList []), (''experience_level'', PStr ''senior'')] ''skills'') \<and>
   format_search_query [(''title'', PStr ''''), (''location'', PStr ''''), (''company'', PStr ''''),
        (''remote'', PBool True), (''date_posted'', PStr ''Last 90 days''),
        (''skills'', PList []), (''experience_level'', PStr ''senior'')] =
     Inr [(''posted_at_max_age_days'', PInt 90),
          (''remote_contains_any'', PList [PStr ''true'']),
          (''seniority_contains_any'', PList [PStr ''senior''])]"
  by code_simp

lemma base_filters_only_recency:
  assumes "\<not> truthy (dict_get q ''title'')" and "\<not> truthy (dict_get q ''company'')"
    and "\<not> truthy (dict_get q ''location'')" and "\<not> truthy (dict_get q ''skills'')"
    and "dict_get q ''remote'' \<noteq> PBool True"
  shows "base_filters q =
           [(''posted_at_max_age_days'', PInt (max_age_days (dict_get q ''date_posted'')))]"
proof -
  from assms(4) have "\<not> nonempty_list (dict_get q ''skills'')"
    by (cases "dict_get q ''skills''") simp_all
  with assms show ?thesis
    by (simp add: base_filters_def put_if_def dict_set_def)
qed

text \<open>
  Claim C5, amended. For every preference record in which title, company, location and
  skills are all missing or empty, the remote flag is not the object \<^verbatim>\<open>True\<close>, and the
  seniority is missing, empty or a string that does not lower-case to entry, mid or
  senior, the formatted query holds exactly one key, \<^verbatim>\<open>posted_at_max_age_days\<close>, with
  the value 1, 7 or 30 for the three known labels and 90 for every other label, a
  missing one included.
\<close>

theorem format_query_single_key:
  assumes "\<not> truthy (dict_get q ''title'')" and "\<not> truthy (dict_get q ''company'')"
    and "\<not> truthy (dict_get q ''location'')" and "\<not> truthy (dict_get q ''skills'')"
    and "dict_get q ''remote'' \<noteq> PBool True"
    and "\<not> truthy (dict_get q ''experience_level'') \<or>
         (\<exists>s. dict_get q ''experience_level'' = PStr s \<and>
              lower s \<notin> {''entry'', ''mid'', ''senior''})"
  shows "\<exists>d. format_search_query q = Inr [(''posted_at_max_age_days'', PInt d)] \<and>
           (dict_get q ''date_posted'' = PStr ''Last 24 hours'' \<longrightarrow> d = 1) \<and>
           (dict_get q ''date_posted'' = PStr ''Last 7 days'' \<longrightarrow> d = 7) \<and>
           (dict_get q ''date_posted'' = PStr ''Last 30 days'' \<longrightarrow> d = 30) \<and>
           (dict_get q ''date_posted'' \<notin>
              {PStr ''Last 24 hours'', PStr ''Last 7 days'', PStr ''Last 30 days''} \<longrightarrow> d = 90)"
proof -
  let ?d = "max_age_days (dict_get q ''date_posted'')"
  let ?lvl = "dict_get q ''experience_level''"
  note base = base_filters_only_recency [OF assms(1-5)]
  have typed: "str_or_falsy ?lvl"
    using assms(6) by (auto simp: str_or_falsy_def)
  have "format_search_query q = Inr [(''posted_at_max_age_days'', PInt ?d)]"
  proof (cases "truthy ?lvl")
    case True
    with assms(6) obtain s where
      s: "?lvl = PStr s" "lower s \<notin> {''entry'', ''mid'', ''senior''}" by blast
    then show ?thesis
      by (simp add: format_search_query_typed [OF typed] put_if_def base)
  next
    case False
    then show ?thesis
      by (cases ?lvl)
         (simp_all add: format_search_query_typed [OF typed] put_if_def base lower_def)
  qed
  moreover have
    "(dict_get q ''date_posted'' = PStr ''Last 24 hours'' \<longrightarrow> ?d = 1) \<and>
     (dict_get q ''date_posted'' = PStr ''Last 7 days'' \<longrightarrow> ?d = 7) \<and>
     (dict_get q ''date_posted'' = PStr ''Last 30 days'' \<longrightarrow> ?d = 30) \<and>
     (dict_get q ''date_posted'' \<notin>
        {PStr ''Last 24 hours'', PStr ''Last 7 days'', PStr ''Last 30 days''} \<longrightarrow> ?d = 90)"
    by (simp add: max_age_days_def)
  ultimately show ?thesis by blast
qed

text \<open>The amended claim applied to the record that holds nothing but a remote preference
  other than \<^verbatim>\<open>True\<close> and a seniority outside the accepted levels.\<close>

theorem format_query_single_key_witness:
  "\<not> truthy (dict_get [(''remote'', PBool False), (''experience_level'', PStr ''Lead'')] ''title'') \<and>
   \<not> truthy (dict_get [(''remote'', PBool False), (''experience_level'', PStr ''Lead'')] ''company'') \<and>
   \<not> truthy (dict_get [(''remote'', PBool False), (''experience_level'', PStr ''Lead'')] ''location'') \<and>
   \<not> truthy (dict_get [(''remote'', PBool False), (''experience_level'', PStr ''Lead'')] ''skills'') \<and>
   dict_get [(''remote'', PBool False), (''experience_level'', PStr ''Lead'')] ''remote'' \<noteq> PBool True \<and>
   dict_get [(''remote'', PBool False), (''experience_level'', PStr ''Lead'')] ''experience_level''
     = PStr ''Lead'' \<and>
   lower ''Lead'' \<notin> {''entry'', ''mid'', ''senior''} \<and>
   format_search_query [(''remote'', PBool False), (''experience_level'', PStr ''Lead'')] =
     Inr [(''posted_at_max_age_days'', PInt 90)]"
proof -
  let ?q = "[(''remote'', PBool False), (''experience_level'', PStr ''Lead'')]"
  have g: "dict_get ?q ''title'' = PNone" "dict_get ?q ''company'' = PNone"
    "dict_get ?q ''location'' = PNone" "dict_get ?q ''skills'' = PNone"
    "dict_get ?q ''remote'' = PBool False" "dict_get ?q ''experience_level'' = PStr ''Lead''"
    "dict_get ?q ''date_posted'' = PNone"
    by (simp_all add: dict_get_def)
  have l: "lower ''Lead'' \<notin> {''entry'', ''mid'', ''senior''}"
    by (simp add: lower_def lower_char_def)
  have h: "\<not> truthy (dict_get ?q ''title'')" "\<not> truthy (dict_get ?q ''company'')"
    "\<not> truthy (dict_get ?q ''location'')" "\<not> truthy (dict_get ?q ''skills'')"
    "dict_get ?q ''remote'' \<noteq> PBool True"
    "\<not> truthy (dict_get ?q ''experience_level'') \<or>
       (\<exists>s. dict_get ?q ''experience_level'' = PStr s \<and>
            lower s \<notin> {''entry'', ''mid'', ''senior''})"
    using l by (simp_all add: g)
  from format_query_single_key [OF h] obtain d where
    "format_search_query ?q = Inr [(''posted_at_max_age_days'', PInt d)]"
    "dict_get ?q ''date_posted'' \<notin>
       {PStr ''Last 24 hours'', PStr ''Last 7 days'', PStr ''Last 30 days''} \<longrightarrow> d = 90"
    by blast
  then have "format_search_query ?q = Inr [(''posted_at_max_age_days'', PInt 90)]"
    by (simp add: g)
  with h(1-5) g(6) l show ?thesis by (intro conjI)
qed

section \<open>Properties of the floating-point operations\<close>

lemma rne_lower: "\<lfloor>x\<rfloor> \<le> rne x"
  by (simp add: rne_def Let_def)

lemma rne_upper: "rne x \<le> \<lfloor>x\<rfloor> + 1"
  by (simp add: rne_def Let_def)

lemma rne_of_int: "rne (of_int k) = k"
  by (simp add: rne_def Let_def)

lemma rne_err: "\<bar>of_int (rne x) - x\<bar> \<le> 1 / 2"
proof -
  have "of_int \<lfloor>x\<rfloor> \<le> x" "x < of_int \<lfloor>x\<rfloor> + 1" by linarith+
  then show ?thesis
    by (auto simp: rne_def Let_def)
qed

lemma rne_mono:
  assumes "x \<le> y"
  shows "rne x \<le> rne y"
proof (cases "\<lfloor>x\<rfloor> = \<lfloor>y\<rfloor>")
  case True
  with assms show ?thesis
    by (auto simp: rne_def Let_def)
next
  case False
  with assms have "\<lfloor>x\<rfloor> < \<lfloor>y\<rfloor>"
    using floor_mono [OF assms] by linarith
  then have "rne x \<le> \<lfloor>y\<rfloor>" using rne_upper [of x] by linarith
  also have "\<dots> \<le> rne y" by (rule rne_lower)
  finally show ?thesis .
qed

lemma of_int_bitlen_bounds:
  assumes "0 < (p::int)"
  shows "(2::rat) powi (bitlen p - 1) \<le> of_int p" and "(of_int p :: rat) < 2 powi bitlen p"
proof -
  from assms have b1: "1 \<le> bitlen p"
    using bitlen_nonneg [of p] bitlen_eq_zero_iff [of p] by linarith
  from bitlen_bounds [OF assms]
  have lo: "2 ^ nat (bitlen p - 1) \<le> p" and hi: "p < 2 ^ nat (bitlen p)" by blast+
  have "(2::rat) powi (bitlen p - 1) = 2 ^ nat (bitlen p - 1)"
    using b1 by (simp add: power_int_nonneg_exp)
  also have "\<dots> = of_int (2 ^ nat (bitlen p - 1))" by simp
  also have "\<dots> \<le> of_int p" using lo by (simp only: of_int_le_iff)
  finally show "(2::rat) powi (bitlen p - 1) \<le> of_int p" .
  have "(of_int p :: rat) < of_int (2 ^ nat (bitlen p))" using hi by (simp only: of_int_less_iff)
  also have "\<dots> = 2 ^ nat (bitlen p)" by simp
  also have "\<dots> = 2 powi bitlen p"
    using b1 by (simp add: power_int_nonneg_exp)
  finally show "(of_int p :: rat) < 2 powi bitlen p" .
qed

lemma binade_bounds:
  assumes "0 < x"
  shows "2 powi binade x \<le> x" and "x < 2 powi (binade x + 1)"
proof -
  obtain p q where pq: "quotient_of x = (p, q)" by (cases "quotient_of x")
  then have q: "0 < q" by (rule quotient_of_denom_pos)
  from pq have x: "x = of_int p / of_int q" by (rule quotient_of_div)
  with assms q have p: "0 < p" by (simp add: zero_less_divide_iff)
  let ?d = "bitlen p - bitlen q"
  note bp = of_int_bitlen_bounds [OF p] and bq = of_int_bitlen_bounds [OF q]
  have qpos: "(0::rat) < of_int q" using q by simp
  have "x < 2 powi bitlen p / of_int q"
    unfolding x using bp(2) qpos by (simp add: divide_strict_right_mono)
  also have "\<dots> \<le> 2 powi bitlen p / 2 powi (bitlen q - 1)"
    using bq(1) by (intro frac_le) simp_all
  also have "\<dots> = 2 powi (?d + 1)"
    by (simp add: power_int_diff [symmetric] algebra_simps)
  finally have up: "x < 2 powi (?d + 1)" .
  have "(2::rat) powi (?d - 1) = 2 powi (bitlen p - 1) / 2 powi bitlen q"
    by (simp add: power_int_diff [symmetric] algebra_simps)
  also have "\<dots> \<le> of_int p / 2 powi bitlen q"
    using bp(1) by (simp add: divide_right_mono)
  also have "\<dots> \<le> x"
    unfolding x using bq(2) qpos p by (intro frac_le) simp_all
  finally have lo: "2 powi (?d - 1) \<le> x" .
  have b: "binade x = (if 2 powi ?d \<le> x then ?d else ?d - 1)"
    by (simp add: binade_def pq Let_def)
  show "2 powi binade x \<le> x" using lo by (simp add: b)
  show "x < 2 powi (binade x + 1)" using up by (auto simp: b)
qed

lemma pow2_less_D: "(2::rat) powi m < 2 powi n \<Longrightarrow> m < n"
proof (rule ccontr)
  assume less: "(2::rat) powi m < 2 powi n" and "\<not> m < n"
  then have "n \<le> m" by simp
  then have "(2::rat) powi n \<le> 2 powi m" by (rule power_int_increasing) simp
  with less show False by simp
qed

lemma binade_unique:
  assumes "2 powi e \<le> x" and "x < 2 powi (e + 1)"
  shows "binade x = e"
proof -
  have "(0::rat) < 2 powi e" by simp
  with assms(1) have pos: "0 < x" by linarith
  note b = binade_bounds [OF pos]
  have "(2::rat) powi e < 2 powi (binade x + 1)" using assms(1) b(2) by linarith
  then have 1: "e < binade x + 1" by (rule pow2_less_D)
  have "(2::rat) powi binade x < 2 powi (e + 1)" using assms(2) b(1) by linarith
  then have 2: "binade x < e + 1" by (rule pow2_less_D)
  from 1 2 show ?thesis by linarith
qed

lemma binade_mono:
  assumes "0 < x" and "x \<le> y"
  shows "binade x \<le> binade y"
proof -
  from assms have y: "0 < y" by linarith
  have "(2::rat) powi binade x \<le> x" by (rule binade_bounds [OF assms(1)])
  also note assms(2)
  also have "y < 2 powi (binade y + 1)" by (rule binade_bounds [OF y])
  finally have "binade x < binade y + 1" by (rule pow2_less_D)
  then show ?thesis by linarith
qed

lemma fl_zero: "fl 0 = 0"
  by (simp add: fl_def)

lemma fl_pos:
  "0 < x \<Longrightarrow> fl x = of_int (rne (x / 2 powi (binade x - 52))) * 2 powi (binade x - 52)"
  by (simp add: fl_def Let_def)

lemma scaled_bounds:
  assumes "0 < x"
  shows "2 ^ 52 \<le> x / 2 powi (binade x - 52)" and "x / 2 powi (binade x - 52) < 2 ^ 53"
proof -
  define t where "t = x / 2 powi binade x"
  have pos: "(0::rat) < 2 powi binade x" by simp
  have s: "x / 2 powi (binade x - 52) = t * 2 ^ 52"
    by (simp add: t_def power_int_diff)
  have t1: "1 \<le> t"
    unfolding t_def using binade_bounds(1) [OF assms] pos by (simp add: le_divide_eq)
  have t2: "t < 2"
    unfolding t_def using binade_bounds(2) [OF assms] pos
    by (simp add: divide_less_eq power_int_add mult.commute)
  show "2 ^ 52 \<le> x / 2 powi (binade x - 52)"
    unfolding s using t1 by simp
  show "x / 2 powi (binade x - 52) < 2 ^ 53"
    unfolding s using t2 by simp
qed

lemma rne_scaled_bounds:
  assumes "0 < x"
  shows "2 ^ 52 \<le> rne (x / 2 powi (binade x - 52))"
    and "rne (x / 2 powi (binade x - 52)) \<le> 2 ^ 53"
proof -
  have "rne (of_int (2 ^ 52)) \<le> rne (x / 2 powi (binade x - 52))"
    using scaled_bounds(1) [OF assms] by (intro rne_mono) simp
  then show "2 ^ 52 \<le> rne (x / 2 powi (binade x - 52))"
    by (simp only: rne_of_int)
  have "rne (x / 2 powi (binade x - 52)) \<le> rne (of_int (2 ^ 53))"
    using scaled_bounds(2) [OF assms] by (intro rne_mono) simp
  then show "rne (x / 2 powi (binade x - 52)) \<le> 2 ^ 53"
    by (simp only: rne_of_int)
qed

lemma fl_lower:
  assumes "0 < x"
  shows "2 powi binade x \<le> fl x"
proof -
  have "(2::rat) powi binade x = 2 ^ 52 * 2 powi (binade x - 52)"
    by (simp add: power_int_diff)
  also have "\<dots> \<le> of_int (rne (x / 2 powi (binade x - 52))) * 2 powi (binade x - 52)"
  proof (rule mult_right_mono)
    have "(of_int (2 ^ 52) :: rat) \<le> of_int (rne (x / 2 powi (binade x - 52)))"
      using rne_scaled_bounds(1) [OF assms] by (simp only: of_int_le_iff)
    then show "(2::rat) ^ 52 \<le> of_int (rne (x / 2 powi (binade x - 52)))" by simp
  qed simp
  finally show ?thesis by (simp only: fl_pos [OF assms])
qed

lemma fl_upper:
  assumes "0 < x"
  shows "fl x \<le> 2 powi (binade x + 1)"
proof -
  have "of_int (rne (x / 2 powi (binade x - 52))) * 2 powi (binade x - 52)
          \<le> 2 ^ 53 * (2::rat) powi (binade x - 52)"
  proof (rule mult_right_mono)
    have "(of_int (rne (x / 2 powi (binade x - 52))) :: rat) \<le> of_int (2 ^ 53)"
      using rne_scaled_bounds(2) [OF assms] by (simp only: of_int_le_iff)
    then show "(of_int (rne (x / 2 powi (binade x - 52))) :: rat) \<le> 2 ^ 53" by simp
  qed simp
  also have "\<dots> = 2 powi (binade x + 1)"
    by (simp add: power_int_diff power_int_add)
  finally show ?thesis by (simp only: fl_pos [OF assms])
qed

lemma fl_nonneg: "0 \<le> x \<Longrightarrow> 0 \<le> fl x"
proof (cases "x = 0")
  case True
  then show ?thesis by (simp add: fl_zero)
next
  case False
  assume "0 \<le> x"
  with False have pos: "0 < x" by simp
  have "(0::rat) \<le> 2 powi binade x" by simp
  also have "\<dots> \<le> fl x" by (rule fl_lower [OF pos])
  finally show ?thesis .
qed

lemma fl_gt_zero: "0 < x \<Longrightarrow> 0 < fl x"
proof -
  assume pos: "0 < x"
  have "(0::rat) < 2 powi binade x" by simp
  also have "\<dots> \<le> fl x" by (rule fl_lower [OF pos])
  finally show ?thesis .
qed

lemma fl_mono:
  assumes "0 \<le> x" and "x \<le> y"
  shows "fl x \<le> fl y"
proof (cases "x = 0")
  case True
  with assms show ?thesis by (simp add: fl_zero fl_nonneg)
next
  case False
  with assms have x: "0 < x" and y: "0 < y" by simp_all
  show ?thesis
  proof (cases "binade x = binade y")
    case True
    have "x / 2 powi (binade y - 52) \<le> y / 2 powi (binade y - 52)"
      using assms(2) by (simp add: divide_right_mono)
    then have "rne (x / 2 powi (binade y - 52)) \<le> rne (y / 2 powi (binade y - 52))"
      by (rule rne_mono)
    then have "(of_int (rne (x / 2 powi (binade y - 52))) :: rat)
                 \<le> of_int (rne (y / 2 powi (binade y - 52)))"
      by (simp only: of_int_le_iff)
    then have "of_int (rne (x / 2 powi (binade y - 52))) * 2 powi (binade y - 52)
                 \<le> of_int (rne (y / 2 powi (binade y - 52))) * (2::rat) powi (binade y - 52)"
      by (rule mult_right_mono) simp
    then show ?thesis by (simp only: fl_pos [OF x] fl_pos [OF y] True)
  next
    case False
    with binade_mono [OF x assms(2)] have "binade x + 1 \<le> binade y" by linarith
    then have "(2::rat) powi (binade x + 1) \<le> 2 powi binade y"
      by (rule power_int_increasing) simp
    with fl_upper [OF x] fl_lower [OF y] show ?thesis by linarith
  qed
qed

lemma fl_err:
  assumes "0 < x"
  shows "\<bar>fl x - x\<bar> \<le> 2 powi (binade x - 53)"
proof -
  let ?e = "binade x - 52"
  let ?s = "x / 2 powi ?e"
  have pe: "(0::rat) < 2 powi ?e" by simp
  have xs: "x = ?s * 2 powi ?e" by simp
  have "fl x - x = (of_int (rne ?s) - ?s) * 2 powi ?e"
    by (simp add: fl_pos [OF assms] left_diff_distrib)
  then have "\<bar>fl x - x\<bar> = \<bar>of_int (rne ?s) - ?s\<bar> * 2 powi ?e"
    by (simp add: abs_mult)
  also have "\<dots> \<le> 1 / 2 * 2 powi ?e"
    by (rule mult_right_mono [OF rne_err]) simp
  also have "\<dots> = 2 powi (binade x - 53)"
    by (simp add: power_int_diff)
  finally show ?thesis .
qed

lemma fl_err_below:
  assumes "0 < x" and "x < 2 powi k"
  shows "\<bar>fl x - x\<bar> \<le> 2 powi (k - 54)"
proof -
  have "(2::rat) powi binade x < 2 powi k"
    using binade_bounds(1) [OF assms(1)] assms(2) by linarith
  then have "binade x < k" by (rule pow2_less_D)
  then have "binade x - 53 \<le> k - 54" by linarith
  then have "(2::rat) powi (binade x - 53) \<le> 2 powi (k - 54)"
    by (rule power_int_increasing) simp
  with fl_err [OF assms(1)] show ?thesis by linarith
qed

lemma fl_one: "fl 1 = 1"
  by code_simp

lemma fl_hundred: "fl 100 = 100"
  by code_simp

text \<open>
  Two values of the model that can be compared with any implementation of binary64: the
  float written \<^verbatim>\<open>0.1\<close> is \<open>3602879701896397 / 2\<^sup>5\<^sup>5\<close>, and \<^verbatim>\<open>23 / 160 * 100\<close> is
  \<open>8092405580431359 / 2\<^sup>4\<^sup>9\<close>, which prints as 14.374999999999998.
\<close>

lemma fl_tenth: "fl (1 / 10) = 3602879701896397 / 2 ^ 55"
  by code_simp

lemma fl_product_23_160: "fl (fl (23 / 160) * 100) = 8092405580431359 / 2 ^ 49"
  by code_simp

lemma py_round2_mono: "x \<le> y \<Longrightarrow> py_round2 x \<le> py_round2 y"
proof -
  assume "x \<le> y"
  then have "x * 100 \<le> y * 100" by simp
  then have "rne (x * 100) \<le> rne (y * 100)" by (rule rne_mono)
  then have "(of_int (rne (x * 100)) :: rat) \<le> of_int (rne (y * 100))"
    by (simp only: of_int_le_iff)
  then show ?thesis by (simp add: py_round2_def divide_right_mono)
qed

lemma py_round2_zero: "py_round2 0 = 0"
  by (simp add: py_round2_def rne_def)

lemma py_round2_hundred: "py_round2 100 = 100"
proof -
  have "rne (of_int 10000) = 10000" by (rule rne_of_int)
  then show ?thesis by (simp add: py_round2_def)
qed

lemma product_mono:
  assumes "m \<le> m'"
  shows "fl (fl (of_nat m / of_nat n) * 100) \<le> fl (fl (of_nat m' / of_nat n) * 100)"
proof -
  have q: "(of_nat m :: rat) / of_nat n \<le> of_nat m' / of_nat n"
    using assms by (simp add: divide_right_mono)
  have q0: "(0::rat) \<le> of_nat m / of_nat n" by simp
  have d: "fl (of_nat m / of_nat n) \<le> fl (of_nat m' / of_nat n)"
    by (rule fl_mono [OF q0 q])
  have d0: "0 \<le> fl (of_nat m / of_nat n)" by (rule fl_nonneg [OF q0])
  show ?thesis
    by (rule fl_mono) (use d d0 in simp_all)
qed

lemma match_percent_mono: "m \<le> m' \<Longrightarrow> match_percent m n \<le> match_percent m' n"
  unfolding match_percent_def by (intro py_round2_mono product_mono)

lemma quotient_le_one:
  assumes "m \<le> n"
  shows "fl (of_nat m / of_nat n) \<le> 1"
proof -
  have "(of_nat m :: rat) / of_nat n \<le> 1"
    using assms by (cases "n = 0") (simp_all add: divide_le_eq_1)
  then have "fl (of_nat m / of_nat n) \<le> fl 1"
    by (intro fl_mono) simp_all
  then show ?thesis by (simp only: fl_one)
qed

lemma product_le_hundred:
  assumes "m \<le> n"
  shows "fl (fl (of_nat m / of_nat n) * 100) \<le> 100"
proof -
  have d0: "0 \<le> fl (of_nat m / of_nat n)" by (rule fl_nonneg) simp
  have "fl (fl (of_nat m / of_nat n) * 100) \<le> fl 100"
    by (rule fl_mono) (use d0 quotient_le_one [OF assms] in simp_all)
  then show ?thesis by (simp only: fl_hundred)
qed

lemma match_percent_bounds:
  assumes "m \<le> n"
  shows "0 \<le> match_percent m n" and "match_percent m n \<le> 100"
proof -
  have d0: "0 \<le> fl (of_nat m / of_nat n)" by (rule fl_nonneg) simp
  then have p0: "0 \<le> fl (fl (of_nat m / of_nat n) * 100)"
    by (intro fl_nonneg) simp
  from py_round2_mono [OF p0] show "0 \<le> match_percent m n"
    by (simp add: match_percent_def py_round2_zero)
  from py_round2_mono [OF product_le_hundred [OF assms]]
  show "match_percent m n \<le> 100"
    by (simp add: match_percent_def py_round2_hundred)
qed

lemma abs_combo: "\<bar>100 * u + 10000 * v\<bar> \<le> 100 * \<bar>u\<bar> + 10000 * \<bar>v\<bar>" for u v :: rat
  by linarith

lemma abs_div_hundred: "\<bar>u\<bar> \<le> 1 / 2 \<Longrightarrow> \<bar>u / 100\<bar> \<le> 1 / 200" for u :: rat
  by linarith

lemma product_err:
  assumes "0 < m" and "m \<le> n"
  shows "\<bar>fl (fl (of_nat m / of_nat n) * 100) * 100 - 10000 * of_nat m / of_nat n\<bar>
           \<le> 16400 / 2 ^ 53"
proof -
  let ?x = "(of_nat m :: rat) / of_nat n"
  let ?d = "fl ?x"
  let ?p = "fl (?d * 100)"
  from assms have n: "0 < n" by linarith
  have x0: "0 < ?x" using assms(1) n by simp
  have x1: "?x \<le> 1" using assms(2) n by (simp add: divide_le_eq_1)
  then have "?x < 2 powi 1" by simp
  from fl_err_below [OF x0 this] have e1: "\<bar>?d - ?x\<bar> \<le> 1 / 2 ^ 53"
    by (simp add: power_int_minus_divide)
  have d0: "0 < ?d" by (rule fl_gt_zero [OF x0])
  have d1: "?d \<le> 1" by (rule quotient_le_one [OF assms(2)])
  have p0: "0 < ?d * 100" using d0 by simp
  have "?d * 100 < 2 powi 7" using d1 by simp
  from fl_err_below [OF p0 this] have e2: "\<bar>?p - ?d * 100\<bar> \<le> 1 / 2 ^ 47"
    by (simp add: power_int_minus_divide)
  have "?p * 100 - 10000 * of_nat m / of_nat n = 100 * (?p - ?d * 100) + 10000 * (?d - ?x)"
    by (simp add: algebra_simps)
  also have "\<bar>\<dots>\<bar> \<le> 100 * \<bar>?p - ?d * 100\<bar> + 10000 * \<bar>?d - ?x\<bar>"
    by (rule abs_combo)
  also have "\<dots> \<le> 100 * (1 / 2 ^ 47) + 10000 * (1 / 2 ^ 53)"
    using e1 e2 by (intro add_mono mult_left_mono) simp_all
  also have "\<dots> = 16400 / 2 ^ 53" by simp
  finally show ?thesis .
qed

lemma near_integer_ratio:
  fixes k a :: int and n :: nat
  assumes n: "0 < n" "n \<le> 2 ^ 37"
    and close: "\<bar>(of_int k :: rat) - of_int a / of_nat n\<bar> \<le> 1 / 2 + 16400 / 2 ^ 53"
  shows "\<bar>(of_int k :: rat) - of_int a / of_nat n\<bar> \<le> 1 / 2"
proof (rule ccontr)
  assume "\<not> ?thesis"
  then have far: "1 / 2 < \<bar>(of_int k :: rat) - of_int a / of_nat n\<bar>" by simp
  let ?D = "2 * k * int n - 2 * a"
  have npos: "(0::rat) < of_nat n" using n(1) by simp
  have eq: "\<bar>(of_int k :: rat) - of_int a / of_nat n\<bar> = of_int \<bar>?D\<bar> / (2 * of_nat n)"
  proof -
    have "(of_int k :: rat) - of_int a / of_nat n = of_int ?D / (2 * of_nat n)"
      using npos by (simp add: field_simps)
    then have "\<bar>(of_int k :: rat) - of_int a / of_nat n\<bar> = \<bar>of_int ?D / (2 * of_nat n)\<bar>"
      by (rule arg_cong)
    also have "\<dots> = of_int \<bar>?D\<bar> / (2 * of_nat n)"
      using npos by (simp add: abs_divide)
    finally show ?thesis .
  qed
  from far have "(of_nat n :: rat) < of_int \<bar>?D\<bar>"
    unfolding eq using npos by (simp add: field_simps)
  then have "(of_int (int n) :: rat) < of_int \<bar>?D\<bar>" by simp
  then have "int n < \<bar>?D\<bar>" by (simp only: of_int_less_iff)
  then have "int n + 1 \<le> \<bar>?D\<bar>" by linarith
  then have "(of_int (int n + 1) :: rat) \<le> of_int \<bar>?D\<bar>" by (simp only: of_int_le_iff)
  then have "(of_nat n + 1) / (2 * of_nat n) \<le> (of_int \<bar>?D\<bar> :: rat) / (2 * of_nat n)"
    using npos by (intro divide_right_mono) simp_all
  then have ge: "1 / 2 + 1 / (2 * of_nat n) \<le> \<bar>(of_int k :: rat) - of_int a / of_nat n\<bar>"
    unfolding eq using npos by (simp add: field_simps)
  have "(of_nat n :: rat) \<le> of_nat (2 ^ 37)" using n(2) by (simp only: of_nat_le_iff)
  then have "(of_nat n :: rat) \<le> 2 ^ 37" by simp
  then have "1 / (2 * 2 ^ 37) \<le> 1 / (2 * (of_nat n :: rat))"
    using npos by (intro divide_left_mono) simp_all
  moreover have "(16400 :: rat) / 2 ^ 53 < 1 / (2 * 2 ^ 37)" by simp
  ultimately have "(16400 :: rat) / 2 ^ 53 < 1 / (2 * of_nat n)" by linarith
  with ge close show False by linarith
qed

lemma match_percent_near:
  assumes "0 < n" and "m \<le> n" and "n \<le> 2 ^ 37"
  shows "\<bar>match_percent m n - 100 * of_nat m / of_nat n\<bar> \<le> 1 / 200"
proof (cases "m = 0")
  case True
  then show ?thesis
    by (simp add: match_percent_def fl_zero py_round2_zero)
next
  case False
  then have m: "0 < m" by simp
  let ?p = "fl (fl (of_nat m / of_nat n) * 100)"
  let ?k = "rne (?p * 100)"
  let ?X = "(of_int (10000 * int m) :: rat) / of_nat n"
  have X: "?X = 10000 * of_nat m / of_nat n" by simp
  have "(of_int ?k :: rat) - ?X = (of_int ?k - ?p * 100) + (?p * 100 - ?X)" by simp
  also have "\<bar>\<dots>\<bar> \<le> \<bar>of_int ?k - ?p * 100\<bar> + \<bar>?p * 100 - ?X\<bar>"
    by (rule abs_triangle_ineq)
  also have "\<dots> \<le> 1 / 2 + 16400 / 2 ^ 53"
    using rne_err [of "?p * 100"] product_err [OF m assms(2)]
    unfolding X by (intro add_mono)
  finally have "\<bar>(of_int ?k :: rat) - ?X\<bar> \<le> 1 / 2 + 16400 / 2 ^ 53" .
  from near_integer_ratio [OF assms(1) assms(3) this]
  have "\<bar>(of_int ?k :: rat) - ?X\<bar> \<le> 1 / 2" .
  moreover have "match_percent m n - 100 * of_nat m / of_nat n = (of_int ?k - ?X) / 100"
    by (simp add: match_percent_def py_round2_def field_simps)
  ultimately show ?thesis by (simp only: abs_div_hundred)
qed

section \<open>Properties of the match scorer\<close>

lemma calculate_match_score_eq:
  "calculate_match_score job c =
     (if required_set job = {} then 0
      else match_percent (card (required_set job \<inter> set c)) (card (required_set job)))"
  unfolding calculate_match_score_def required_set_def match_percent_def Let_def
  by (rule refl)

lemma finite_required_set: "finite (required_set job)"
  unfolding required_set_def by (rule finite_set)

lemma card_matches_le: "card (required_set job \<inter> set c) \<le> card (required_set job)"
  by (intro card_mono finite_required_set) simp

lemma score_example: "calculate_match_score \<lparr>required_skills = Some [''Python'', ''SQL'', ''AWS'']\<rparr> [''Python'', ''SQL''] = 6667 / 100"
  by code_simp

lemma length_skill_names: "length (skill_names n) = n"
  by (simp add: skill_names_def)

lemma distinct_skill_names: "distinct (skill_names n)"
  unfolding skill_names_def distinct_map
proof
  show "distinct [1..<Suc n]" by simp
  show "inj_on (\<lambda>i. replicate i CHR ''s'') (set [1..<Suc n])"
  proof (rule inj_onI)
    fix i j :: nat
    assume "replicate i CHR ''s'' = replicate j CHR ''s''"
    then have "length (replicate i CHR ''s'') = length (replicate j CHR ''s'')" by simp
    then show "i = j" by simp
  qed
qed

lemma card_skill_names: "card (set (skill_names n)) = n"
  using distinct_card [OF distinct_skill_names [of n]] by (simp add: length_skill_names)

lemma skill_names_subset: "m \<le> n \<Longrightarrow> set (skill_names m) \<subseteq> set (skill_names n)"
  by (auto simp: skill_names_def)

lemma required_set_Some: "required_set \<lparr>required_skills = Some l\<rparr> = set l"
  by (simp add: required_set_def)

lemma score_skill_names:
  assumes "0 < n" and "m \<le> n"
  shows "calculate_match_score \<lparr>required_skills = Some (skill_names n)\<rparr> (skill_names m)
           = match_percent m n"
proof -
  let ?R = "set (skill_names n)"
  have "card ?R \<noteq> 0" using assms(1) by (simp add: card_skill_names)
  then have ne: "?R \<noteq> {}" by auto
  have "?R \<inter> set (skill_names m) = set (skill_names m)"
    using skill_names_subset [OF assms(2)] by blast
  then show ?thesis
    using ne by (simp add: calculate_match_score_eq required_set_Some card_skill_names)
qed

lemma match_percent_23_160: "match_percent 23 160 = 1437 / 100"
  by code_simp

text \<open>
  Exact ties are resolved in either direction: 1 of 32 skills is exactly 3.125 percent
  and gives 3.12, 49 of 160 skills is exactly 30.625 percent and gives 30.63.
\<close>

lemma match_percent_ties:
  "match_percent 1 32 = 312 / 100"
  "match_percent 49 160 = 3063 / 100"
  by code_simp+

lemma exact_roundings_23_160:
  "round_half_up2 (100 * 23 / 160) = 1438 / 100"
  "round_half_even2 (100 * 23 / 160) = 1438 / 100"
  by code_simp+

text \<open>
  Claim C1 as stated fails. For a job with 160 required skills of which the candidate
  has 23 the exact percentage is 14.375; rounded to two decimals this is 14.38, whether
  a tie goes up or to the even digit. The code divides first and multiplies by 100
  afterwards, both in binary floating point, which gives 14.374999999999998, and
  returns 14.37.
\<close>

theorem score_rounding_counterexample:
  "calculate_match_score \<lparr>required_skills = Some (skill_names 160)\<rparr> (skill_names 23)
     = 1437 / 100 \<and>
   card (required_set \<lparr>required_skills = Some (skill_names 160)\<rparr>) = 160 \<and>
   card (required_set \<lparr>required_skills = Some (skill_names 160)\<rparr> \<inter> set (skill_names 23)) = 23 \<and>
   round_half_up2 (100 * 23 / 160) = 1438 / 100 \<and>
   round_half_even2 (100 * 23 / 160) = 1438 / 100"
proof -
  have s: "calculate_match_score \<lparr>required_skills = Some (skill_names 160)\<rparr> (skill_names 23)
             = 1437 / 100"
    by (simp add: score_skill_names match_percent_23_160)
  have "set (skill_names 160) \<inter> set (skill_names 23) = set (skill_names 23)"
    using skill_names_subset [of 23 160] by auto
  then have c: "card (required_set \<lparr>required_skills = Some (skill_names 160)\<rparr>
                   \<inter> set (skill_names 23)) = 23"
    by (simp add: required_set_Some card_skill_names)
  have r: "card (required_set \<lparr>required_skills = Some (skill_names 160)\<rparr>) = 160"
    by (simp add: required_set_Some card_skill_names)
  from s r c exact_roundings_23_160 show ?thesis by (intro conjI)
qed

text \<open>
  Claim C1, amended. For every job record with a non-empty required-skill set of at
  most \<open>2\<^sup>3\<^sup>7\<close> skills and every candidate skill list, \<^verbatim>\<open>calculate_match_score\<close> returns a
  number of hundredths that lies within 0.005 of
  100 * |intersection of the two skill sets| / |required-skill set|, that is a nearest
  value with two decimal places; when the exact percentage lies half-way between two
  such values, either of them may be returned. For the required skills Python, SQL, AWS
  and the candidate skills Python, SQL the result is exactly 66.67.
\<close>

theorem score_nearest_hundredth:
  assumes "required_set job \<noteq> {}" and "card (required_set job) \<le> 2 ^ 37"
  shows "(\<exists>k::int. calculate_match_score job c = of_int k / 100) \<and>
         \<bar>calculate_match_score job c
            - 100 * of_nat (card (required_set job \<inter> set c)) / of_nat (card (required_set job))\<bar>
           \<le> 1 / 200 \<and>
         calculate_match_score \<lparr>required_skills = Some [''Python'', ''SQL'', ''AWS'']\<rparr>
           [''Python'', ''SQL''] = 6667 / 100"
proof (intro conjI)
  let ?n = "card (required_set job)"
  let ?m = "card (required_set job \<inter> set c)"
  have s: "calculate_match_score job c = match_percent ?m ?n"
    using assms(1) by (simp add: calculate_match_score_eq)
  show "\<exists>k::int. calculate_match_score job c = of_int k / 100"
    unfolding s match_percent_def py_round2_def by (rule exI) (rule refl)
  have n: "0 < ?n"
    using assms(1) finite_required_set [of job] by (simp add: card_gt_0_iff)
  show "\<bar>calculate_match_score job c - 100 * of_nat ?m / of_nat ?n\<bar> \<le> 1 / 200"
    unfolding s by (rule match_percent_near [OF n card_matches_le assms(2)])
  show "calculate_match_score \<lparr>required_skills = Some [''Python'', ''SQL'', ''AWS'']\<rparr>
           [''Python'', ''SQL''] = 6667 / 100"
    by (rule score_example)
qed

text \<open>The amended claim applied to a job that requires Python and Go and a candidate
  who knows Go: the score 50 is the exact percentage.\<close>

theorem score_nearest_hundredth_witness:
  "required_set \<lparr>required_skills = Some [''Python'', ''Go'']\<rparr> \<noteq> {} \<and>
   card (required_set \<lparr>required_skills = Some [''Python'', ''Go'']\<rparr>) \<le> 2 ^ 37 \<and>
   \<bar>calculate_match_score \<lparr>required_skills = Some [''Python'', ''Go'']\<rparr> [''Go''] - 50\<bar>
     \<le> 1 / 200"
proof -
  let ?j = "\<lparr>required_skills = Some [''Python'', ''Go'']\<rparr>"
  have r: "required_set ?j = {''Python'', ''Go''}" by (simp add: required_set_def)
  have h1: "required_set ?j \<noteq> {}" by (simp add: r)
  have c: "card (required_set ?j) = 2" by (simp add: r)
  have h2: "card (required_set ?j) \<le> 2 ^ 37" by (simp add: c)
  have i: "card (required_set ?j \<inter> set [''Go'']) = 1" by (simp add: r)
  from score_nearest_hundredth [OF h1 h2, of "[''Go'']"]
  have "\<bar>calculate_match_score ?j [''Go'']
          - 100 * of_nat (card (required_set ?j \<inter> set [''Go''])) / of_nat (card (required_set ?j))\<bar>
        \<le> 1 / 200"
    by (elim conjE)
  then have "\<bar>calculate_match_score ?j [''Go''] - 50\<bar> \<le> 1 / 200"
    unfolding c i by simp
  with h1 h2 show ?thesis by (intro conjI)
qed

text \<open>
  Claim C2. For every job record whose required-skill set is empty (the entry is missing
  or an empty list) and every candidate skill list, \<^verbatim>\<open>calculate_match_score\<close> returns
  exactly 0: a number, not an error, and not 100.
\<close>

theorem score_empty_required:
  assumes "required_set job = {}"
  shows "calculate_match_score job c = 0 \<and> calculate_match_score job c \<noteq> 100"
  using assms by (simp add: calculate_match_score_eq)

text \<open>The specification's example: no required skills, candidate skill Python.\<close>

theorem score_empty_required_witness:
  "required_set \<lparr>required_skills = Some []\<rparr> = {} \<and>
   calculate_match_score \<lparr>required_skills = Some []\<rparr> [''Python''] = 0 \<and>
   required_set \<lparr>required_skills = None\<rparr> = {} \<and>
   calculate_match_score \<lparr>required_skills = None\<rparr> [''Python''] = 0"
proof -
  have h1: "required_set \<lparr>required_skills = Some []\<rparr> = {}" by (simp add: required_set_def)
  have h2: "required_set \<lparr>required_skills = None\<rparr> = {}" by (simp add: required_set_def)
  from score_empty_required [OF h1, of "[''Python'']"]
    score_empty_required [OF h2, of "[''Python'']"] h1 h2
  show ?thesis by (intro conjI) simp_all
qed

text \<open>
  Claim C6. For every job record and candidate skill lists \<open>A\<close> and \<open>B\<close> such that the
  skills of \<open>B\<close> include those of \<open>A\<close>, the score with \<open>B\<close> is at least the score with
  \<open>A\<close>: a larger candidate skill set never lowers the score. This holds for the floats
  the code computes, since division, multiplication and both roundings are monotone.
\<close>

theorem score_monotone:
  assumes "set A \<subseteq> set B"
  shows "calculate_match_score job A \<le> calculate_match_score job B"
proof (cases "required_set job = {}")
  case True
  then show ?thesis by (simp add: calculate_match_score_eq)
next
  case False
  have "required_set job \<inter> set A \<subseteq> required_set job \<inter> set B"
    using assms by blast
  then have "card (required_set job \<inter> set A) \<le> card (required_set job \<inter> set B)"
    by (intro card_mono) simp_all
  then show ?thesis
    using False by (simp add: calculate_match_score_eq match_percent_mono)
qed

text \<open>The theorem applied to the job requiring Python, SQL and AWS, with the candidate
  learning SQL in addition to Python: the score rises from 33.33 to 66.67.\<close>

theorem score_monotone_witness:
  "set [''Python''] \<subseteq> set [''Python'', ''SQL''] \<and>
   calculate_match_score \<lparr>required_skills = Some [''Python'', ''SQL'', ''AWS'']\<rparr> [''Python'']
     \<le> calculate_match_score \<lparr>required_skills = Some [''Python'', ''SQL'', ''AWS'']\<rparr>
          [''Python'', ''SQL''] \<and>
   calculate_match_score \<lparr>required_skills = Some [''Python'', ''SQL'', ''AWS'']\<rparr> [''Python'']
     = 3333 / 100"
proof -
  have h: "set [''Python''] \<subseteq> set [''Python'', ''SQL'']" by simp
  have v: "calculate_match_score \<lparr>required_skills = Some [''Python'', ''SQL'', ''AWS'']\<rparr>
             [''Python''] = 3333 / 100"
    by code_simp
  from score_monotone [OF h] h v show ?thesis by (intro conjI)
qed

text \<open>
  Claim C10. For every job record and candidate skill list the score lies between 0 and
  100 inclusive, and it depends only on the two sets of skills: two job records with the
  same set of required skills and two candidate lists with the same set of skills (lists
  that differ by duplicates or order) get the same score.
\<close>

theorem score_range_and_set_invariance:
  assumes "required_set job' = required_set job" and "set c' = set c"
  shows "0 \<le> calculate_match_score job c \<and> calculate_match_score job c \<le> 100 \<and>
         calculate_match_score job' c' = calculate_match_score job c"
proof (intro conjI)
  show "0 \<le> calculate_match_score job c"
    by (simp add: calculate_match_score_eq match_percent_bounds(1) [OF card_matches_le])
  show "calculate_match_score job c \<le> 100"
    by (simp add: calculate_match_score_eq match_percent_bounds(2) [OF card_matches_le])
  show "calculate_match_score job' c' = calculate_match_score job c"
    by (simp only: calculate_match_score_eq assms)
qed

text \<open>The theorem applied to a job whose skill list is given twice in different order
  and with a duplicate, and to candidate lists with the same difference.\<close>

theorem score_range_and_set_invariance_witness:
  "required_set \<lparr>required_skills = Some [''AWS'', ''Python'', ''SQL'', ''Python'']\<rparr>
     = required_set \<lparr>required_skills = Some [''Python'', ''SQL'', ''AWS'']\<rparr> \<and>
   set [''SQL'', ''SQL'', ''Python''] = set [''Python'', ''SQL''] \<and>
   calculate_match_score \<lparr>required_skills = Some [''AWS'', ''Python'', ''SQL'', ''Python'']\<rparr>
     [''SQL'', ''SQL'', ''Python''] = 6667 / 100"
proof -
  have h1: "required_set \<lparr>required_skills = Some [''AWS'', ''Python'', ''SQL'', ''Python'']\<rparr>
              = required_set \<lparr>required_skills = Some [''Python'', ''SQL'', ''AWS'']\<rparr>"
    by (auto simp: required_set_def)
  have h2: "set [''SQL'', ''SQL'', ''Python''] = set [''Python'', ''SQL'']" by auto
  from score_range_and_set_invariance [OF h1 h2]
  have "calculate_match_score \<lparr>required_skills = Some [''AWS'', ''Python'', ''SQL'', ''Python'']\<rparr>
          [''SQL'', ''SQL'', ''Python''] = 6667 / 100"
    by (simp only: score_example)
  with h1 h2 show ?thesis by (intro conjI)
qed

section \<open>Properties of the job search\<close>

lemma search_jobs_raised:
  assumes "format_search_query q = Inr aq"
    and "post (THEIRSTACK_API_URL @ ''/jobs/search'') (headers self) aq = Raised e"
  shows "search_jobs post self q =
           (Inr (PList []),
            [Print_sending_query aq,
             Http_post (THEIRSTACK_API_URL @ ''/jobs/search'') (headers self) aq,
             St_error (Error_searching_jobs e)])"
  using assms by (simp add: search_jobs_def search_jobs_try_def)

lemma search_jobs_error_status:
  assumes "format_search_query q = Inr aq"
    and "post (THEIRSTACK_API_URL @ ''/jobs/search'') (headers self) aq = Returned r"
    and "400 \<le> status_code r" and "status_code r < 600"
  shows "search_jobs post self q =
           (Inr (PList []),
            [Print_sending_query aq,
             Http_post (THEIRSTACK_API_URL @ ''/jobs/search'') (headers self) aq,
             Print_api_response (status_code r) (response_text r),
             St_error (Error_searching_jobs (HTTPError (status_code r)))])"
  using assms by (simp add: search_jobs_def search_jobs_try_def raise_for_status_def)

lemma search_jobs_one_post:
  assumes "format_search_query q = Inr aq"
  shows "length (filter is_http_post (snd (search_jobs post self q))) = 1"
    and "\<exists>v. fst (search_jobs post self q) = Inr v"
  using assms
  by (auto simp: search_jobs_def search_jobs_try_def Let_def
           split: http_outcome.splits option.splits sum.splits)

lemma format_title_only:
  "format_search_query [(''title'', PStr ''Engineer'')] =
     Inr [(''posted_at_max_age_days'', PInt 90),
          (''job_title_contains_any'', PList [PStr ''Engineer''])]"
  by code_simp

text \<open>
  Claim C7 as stated fails for a status that is neither 200 nor an error status of the
  HTTP library: the response below has status 300 and a JSON body with one job. The code
  prints the status and the body, \<^verbatim>\<open>raise_for_status()\<close> does not raise for a status
  below 400, and the parsed, non-empty list is returned without any reported error.
\<close>

theorem search_jobs_non_success_counterexample:
  "search_jobs
     (\<lambda>url hs q. Returned \<lparr>status_code = 300, response_text = ''[{}]'',
                             json = Inr (PList [PDict []])\<rparr>)
     \<lparr>api_key = ''key''\<rparr> [(''title'', PStr ''Engineer'')] =
   (Inr (PList [PDict []]),
    [Print_sending_query [(''posted_at_max_age_days'', PInt 90),
                          (''job_title_contains_any'', PList [PStr ''Engineer''])],
     Http_post (THEIRSTACK_API_URL @ ''/jobs/search'') (headers \<lparr>api_key = ''key''\<rparr>)
       [(''posted_at_max_age_days'', PInt 90),
        (''job_title_contains_any'', PList [PStr ''Engineer''])],
     Print_api_response 300 ''[{}]''])"
  by (simp add: search_jobs_def search_jobs_try_def raise_for_status_def format_title_only)

text \<open>
  Claim C7, amended. For every query that the formatter accepts: when the HTTP call
  raises an exception, or returns a status from 400 to 599 (the statuses on which
  \<^verbatim>\<open>raise_for_status()\<close> raises), \<^verbatim>\<open>search_jobs\<close> catches the failure, reports it with
  \<^verbatim>\<open>st.error\<close> (after printing the status and the body of the error response) and
  returns the empty list. Whatever the outcome of the call, \<^verbatim>\<open>search_jobs\<close> returns a
  value, no exception leaves it, and the request is sent exactly once: there is no retry.
\<close>

theorem search_jobs_failure:
  assumes "format_search_query q = Inr aq"
  shows "(post (THEIRSTACK_API_URL @ ''/jobs/search'') (headers self) aq = Raised e \<longrightarrow>
            search_jobs post self q =
              (Inr (PList []),
               [Print_sending_query aq,
                Http_post (THEIRSTACK_API_URL @ ''/jobs/search'') (headers self) aq,
                St_error (Error_searching_jobs e)])) \<and>
         (post (THEIRSTACK_API_URL @ ''/jobs/search'') (headers self) aq = Returned r \<and>
          400 \<le> status_code r \<and> status_code r < 600 \<longrightarrow>
            search_jobs post self q =
              (Inr (PList []),
               [Print_sending_query aq,
                Http_post (THEIRSTACK_API_URL @ ''/jobs/search'') (headers self) aq,
                Print_api_response (status_code r) (response_text r),
                St_error (Error_searching_jobs (HTTPError (status_code r)))])) \<and>
         length (filter is_http_post (snd (search_jobs post self q))) = 1 \<and>
         (\<exists>v. fst (search_jobs post self q) = Inr v)"
proof (intro conjI impI)
  assume "post (THEIRSTACK_API_URL @ ''/jobs/search'') (headers self) aq = Raised e"
  with assms show "search_jobs post self q =
      (Inr (PList []),
       [Print_sending_query aq,
        Http_post (THEIRSTACK_API_URL @ ''/jobs/search'') (headers self) aq,
        St_error (Error_searching_jobs e)])"
    by (rule search_jobs_raised)
next
  assume "post (THEIRSTACK_API_URL @ ''/jobs/search'') (headers self) aq = Returned r \<and>
          400 \<le> status_code r \<and> status_code r < 600"
  then show "search_jobs post self q =
      (Inr (PList []),
       [Print_sending_query aq,
        Http_post (THEIRSTACK_API_URL @ ''/jobs/search'') (headers self) aq,
        Print_api_response (status_code r) (response_text r),
        St_error (Error_searching_jobs (HTTPError (status_code r)))])"
    using search_jobs_error_status [OF assms] by blast
next
  show "length (filter is_http_post (snd (search_jobs post self q))) = 1"
    by (rule search_jobs_one_post(1) [OF assms])
  show "\<exists>v. fst (search_jobs post self q) = Inr v"
    by (rule search_jobs_one_post(2) [OF assms])
qed

text \<open>The amended claim applied to a refused connection and to a response with
  status 401.\<close>

theorem search_jobs_failure_witness:
  "format_search_query [(''title'', PStr ''Engineer'')] =
     Inr [(''posted_at_max_age_days'', PInt 90),
          (''job_title_contains_any'', PList [PStr ''Engineer''])] \<and>
   fst (search_jobs (\<lambda>url hs q. Raised (RequestException ''connection refused''))
          \<lparr>api_key = ''key''\<rparr> [(''title'', PStr ''Engineer'')]) = Inr (PList []) \<and>
   last (snd (search_jobs (\<lambda>url hs q. Raised (RequestException ''connection refused''))
          \<lparr>api_key = ''key''\<rparr> [(''title'', PStr ''Engineer'')])) =
     St_error (Error_searching_jobs (RequestException ''connection refused'')) \<and>
   fst (search_jobs (\<lambda>url hs q. Returned \<lparr>status_code = 401, response_text = ''Unauthorized'',
                                            json = Inl JSONDecodeError\<rparr>)
          \<lparr>api_key = ''key''\<rparr> [(''title'', PStr ''Engineer'')]) = Inr (PList []) \<and>
   last (snd (search_jobs (\<lambda>url hs q. Returned \<lparr>status_code = 401, response_text = ''Unauthorized'',
                                            json = Inl JSONDecodeError\<rparr>)
          \<lparr>api_key = ''key''\<rparr> [(''title'', PStr ''Engineer'')])) =
     St_error (Error_searching_jobs (HTTPError 401))"
proof -
  let ?q = "[(''title'', PStr ''Engineer'')]"
  let ?self = "\<lparr>api_key = ''key''\<rparr>"
  let ?down = "\<lambda>(url::string) (hs::(string \<times> string) list) (q::dict).
                 Raised (RequestException ''connection refused'')"
  let ?r = "\<lparr>status_code = 401, response_text = ''Unauthorized'', json = Inl JSONDecodeError\<rparr>"
  let ?denied = "\<lambda>(url::string) (hs::(string \<times> string) list) (q::dict). Returned ?r"
  note f = format_title_only
  from search_jobs_failure [OF f, of ?down ?self "RequestException ''connection refused''"]
  have a: "fst (search_jobs ?down ?self ?q) = Inr (PList [])"
    "last (snd (search_jobs ?down ?self ?q)) =
       St_error (Error_searching_jobs (RequestException ''connection refused''))"
    by simp_all
  from search_jobs_failure [OF f, of ?denied ?self _ ?r]
  have b: "fst (search_jobs ?denied ?self ?q) = Inr (PList [])"
    "last (snd (search_jobs ?denied ?self ?q)) = St_error (Error_searching_jobs (HTTPError 401))"
    by simp_all
  from f a b show ?thesis by (intro conjI)
qed

section \<open>Properties of the document extraction\<close>

lemma split_on_nonempty: "split_on sep s \<noteq> []"
  by (induction s) (auto split: list.splits)

lemma split_on_no_sep: "sep \<notin> set s \<Longrightarrow> split_on sep s = [s]"
  by (induction s) auto

lemma split_on_append: "split_on sep (a @ sep # b) = split_on sep a @ split_on sep b"
proof (induction a)
  case Nil
  show ?case by simp
next
  case (Cons c a)
  obtain p ps where "split_on sep a = p # ps"
    using split_on_nonempty [of sep a] by (cases "split_on sep a") auto
  with Cons show ?case by simp
qed

lemma last_split_on_append:
  "sep \<notin> set suf \<Longrightarrow> last (split_on sep (pre @ sep # suf)) = suf"
  by (simp add: split_on_append split_on_no_sep)

lemma py_last_split_on: "py_last (split_on sep s) = Inr (last (split_on sep s))"
  by (simp add: py_last_def split_on_nonempty)

lemma process_uploaded_file_Some:
  "process_uploaded_file lib (Some f) =
     (case process_uploaded_file_try lib f (declared_extension (name f)) of
        (Inl e, trace) \<Rightarrow> (Inr None, trace @ [St_error (Error_processing_file e)])
      | (Inr txt, trace) \<Rightarrow> (Inr txt, trace))"
  by (simp add: process_uploaded_file_def py_last_split_on declared_extension_def)

lemma process_uploaded_file_returns: "\<exists>r. fst (process_uploaded_file lib uf) = Inr r"
proof (cases uf)
  case None
  then show ?thesis by (simp add: process_uploaded_file_def)
next
  case (Some f)
  show ?thesis
    unfolding Some process_uploaded_file_Some
    by (cases "process_uploaded_file_try lib f (declared_extension (name f))")
       (auto split: sum.splits)
qed

lemma process_unsupported:
  assumes "declared_extension (name f) \<notin> {''pdf'', ''docx'', ''txt''}"
  shows "process_uploaded_file lib (Some f) =
           (Inr None, [St_error (Unsupported_file_format (declared_extension (name f)))])"
  using assms by (simp add: process_uploaded_file_Some process_uploaded_file_try_def)

lemma declared_extension_dotted:
  "CHR ''.'' \<notin> set suf \<Longrightarrow> declared_extension (pre @ CHR ''.'' # suf) = lower suf"
  by (simp add: declared_extension_def last_split_on_append)


lemma process_try_raises:
  assumes "fst (process_uploaded_file_try lib f (declared_extension (name f))) = Inl e"
  shows "process_uploaded_file lib (Some f) =
           (Inr None,
            snd (process_uploaded_file_try lib f (declared_extension (name f)))
              @ [St_error (Error_processing_file e)])"
  using assms
  by (cases "process_uploaded_file_try lib f (declared_extension (name f))")
     (simp add: process_uploaded_file_Some)

text \<open>
  Claim C8. The extension the code derives from a file name is the lower-cased text
  after the final dot (for a name without a dot, the whole name, lower-cased). For every
  uploaded file whose extension is not pdf, docx or txt, \<^verbatim>\<open>process_uploaded_file\<close> reports
  the unsupported format with \<^verbatim>\<open>st.error\<close> and returns \<^verbatim>\<open>None\<close>. For every input, a
  missing file included, and whatever the document libraries do, the function returns a
  value: an exception inside the \<^verbatim>\<open>try\<close> block is reported with \<^verbatim>\<open>st.error\<close> and
  answered with \<^verbatim>\<open>None\<close>.
\<close>

theorem process_uploaded_file_unsupported:
  "(\<exists>r. fst (process_uploaded_file lib uf) = Inr r) \<and>
   (declared_extension (name f) \<notin> {''pdf'', ''docx'', ''txt''} \<longrightarrow>
      process_uploaded_file lib (Some f) =
        (Inr None, [St_error (Unsupported_file_format (declared_extension (name f)))])) \<and>
   (CHR ''.'' \<notin> set suf \<longrightarrow> declared_extension (pre @ CHR ''.'' # suf) = lower suf) \<and>
   (fst (process_uploaded_file_try lib f (declared_extension (name f))) = Inl e \<longrightarrow>
      process_uploaded_file lib (Some f) =
        (Inr None,
         snd (process_uploaded_file_try lib f (declared_extension (name f)))
           @ [St_error (Error_processing_file e)]))"
proof (intro conjI impI)
  show "\<exists>r. fst (process_uploaded_file lib uf) = Inr r"
    by (rule process_uploaded_file_returns)
next
  assume "declared_extension (name f) \<notin> {''pdf'', ''docx'', ''txt''}"
  then show "process_uploaded_file lib (Some f) =
      (Inr None, [St_error (Unsupported_file_format (declared_extension (name f)))])"
    by (rule process_unsupported)
next
  assume "CHR ''.'' \<notin> set suf"
  then show "declared_extension (pre @ CHR ''.'' # suf) = lower suf"
    by (rule declared_extension_dotted)
next
  assume "fst (process_uploaded_file_try lib f (declared_extension (name f))) = Inl e"
  then show "process_uploaded_file lib (Some f) =
      (Inr None,
       snd (process_uploaded_file_try lib f (declared_extension (name f)))
         @ [St_error (Error_processing_file e)])"
    by (rule process_try_raises)
qed

text \<open>The theorem applied to a spreadsheet named resume.CSV, and to a PDF whose reader
  raises.\<close>

theorem process_uploaded_file_unsupported_witness:
  "declared_extension ''resume.CSV'' = ''csv'' \<and>
   ''csv'' \<notin> {''pdf'', ''docx'', ''txt''} \<and>
   process_uploaded_file
     \<lparr>pdf_reader = (\<lambda>b. Inl (ExtractionError ''damaged'')),
      docx_document = (\<lambda>b. Inr []), decode_utf8 = (\<lambda>b. Inr b)\<rparr>
     (Some \<lparr>name = ''resume.CSV'', content = ''a,b''\<rparr>) =
     (Inr None, [St_error (Unsupported_file_format ''csv'')]) \<and>
   process_uploaded_file
     \<lparr>pdf_reader = (\<lambda>b. Inl (ExtractionError ''damaged'')),
      docx_document = (\<lambda>b. Inr []), decode_utf8 = (\<lambda>b. Inr b)\<rparr>
     (Some \<lparr>name = ''cv.pdf'', content = ''%PDF''\<rparr>) =
     (Inr None, [St_error (Error_processing_file (ExtractionError ''damaged''))])"
proof -
  let ?lib = "\<lparr>pdf_reader = (\<lambda>b. Inl (ExtractionError ''damaged'')),
               docx_document = (\<lambda>b. Inr []), decode_utf8 = (\<lambda>b. Inr b)\<rparr>"
  let ?csv = "\<lparr>name = ''resume.CSV'', content = ''a,b''\<rparr>"
  let ?pdf = "\<lparr>name = ''cv.pdf'', content = ''%PDF''\<rparr>"
  have x: "declared_extension ''resume.CSV'' = ''csv''"
    by (simp add: declared_extension_def lower_def lower_char_def)
  have y: "declared_extension ''cv.pdf'' = ''pdf''"
    by (simp add: declared_extension_def lower_def lower_char_def)
  have n: "''csv'' \<notin> {''pdf'', ''docx'', ''txt''}" by simp
  have t: "process_uploaded_file_try ?lib ?pdf ''pdf'' = (Inl (ExtractionError ''damaged''), [])"
    by (simp add: process_uploaded_file_try_def)
  from process_uploaded_file_unsupported [of ?lib _ ?csv]
  have a: "process_uploaded_file ?lib (Some ?csv) =
             (Inr None, [St_error (Unsupported_file_format ''csv'')])"
    by (simp add: x)
  from process_uploaded_file_unsupported [of ?lib _ ?pdf _ _ "ExtractionError ''damaged''"]
  have b: "process_uploaded_file ?lib (Some ?pdf) =
             (Inr None, [St_error (Error_processing_file (ExtractionError ''damaged''))])"
    by (simp add: y t)
  from x n a b show ?thesis by (intro conjI)
qed

section \<open>Properties of the searching step\<close>

lemma main_step3_found:
  assumes "key \<noteq> []"
    and "search_jobs post \<lparr>api_key = key\<rparr> (search_query s) = (Inr found, trace)"
  shows "main_step3 post key clicked s =
           (if truthy found
              then (s\<lparr>jobs := Some found, step := 4\<rparr>,
                    St_write_debug (search_query s) # trace @ [St_rerun])
            else if clicked
              then (s\<lparr>step := 2\<rparr>,
                    St_write_debug (search_query s) # trace
                      @ [St_warning No_jobs_found, St_button ''Adjust Preferences'', St_rerun])
            else (s, St_write_debug (search_query s) # trace
                       @ [St_warning No_jobs_found, St_button ''Adjust Preferences'']))"
  using assms by (simp add: main_step3_def Let_def)

lemma main_step3_step4:
  assumes "step s = 3" and "step (fst (main_step3 post key clicked s)) = 4"
  shows "key \<noteq> [] \<and>
         (\<exists>found. fst (search_jobs post \<lparr>api_key = key\<rparr> (search_query s)) = Inr found \<and>
                   truthy found)"
proof -
  obtain res trace where
    sj: "search_jobs post \<lparr>api_key = key\<rparr> (search_query s) = (res, trace)"
    by (cases "search_jobs post \<lparr>api_key = key\<rparr> (search_query s)")
  from assms have key: "key \<noteq> []"
    by (auto simp: main_step3_def)
  show ?thesis
  proof (cases res)
    case (Inl e)
    with assms key sj show ?thesis by (simp add: main_step3_def Let_def)
  next
    case (Inr found)
    with assms key sj show ?thesis
      by (auto simp: main_step3_found split: if_splits)
  qed
qed

text \<open>
  Claim C9. In a run of step 3 (with an API key entered) whose job search returns the
  empty list, the session does not move to step 4: it stays in step 3, showing the
  warning and the "Adjust Preferences" button as the only control, and moves to step 2
  exactly when that button is clicked; the stored jobs are untouched. A run of step 3
  ends in step 4 only when the search returned a value that counts as true, which for
  a list means at least one job.
\<close>

theorem searching_step_empty_result:
  assumes "step s = 3"
  shows "(key \<noteq> [] \<and>
          search_jobs post \<lparr>api_key = key\<rparr> (search_query s) = (Inr (PList []), trace) \<longrightarrow>
            step (fst (main_step3 post key clicked s)) = (if clicked then 2 else 3) \<and>
            step (fst (main_step3 post key clicked s)) \<noteq> 4 \<and>
            jobs (fst (main_step3 post key clicked s)) = jobs s \<and>
            snd (main_step3 post key clicked s) =
              St_write_debug (search_query s) # trace
                @ [St_warning No_jobs_found, St_button ''Adjust Preferences'']
                @ (if clicked then [St_rerun] else [])) \<and>
         (step (fst (main_step3 post key clicked s)) = 4 \<longrightarrow>
            key \<noteq> [] \<and>
            (\<exists>found. fst (search_jobs post \<lparr>api_key = key\<rparr> (search_query s)) = Inr found \<and>
                      truthy found)) \<and>
         (\<forall>js. key \<noteq> [] \<and>
               fst (search_jobs post \<lparr>api_key = key\<rparr> (search_query s)) = Inr (PList js) \<longrightarrow>
               (step (fst (main_step3 post key clicked s)) = 4) = (js \<noteq> []))"
proof (intro conjI impI allI)
  assume h: "key \<noteq> [] \<and>
    search_jobs post \<lparr>api_key = key\<rparr> (search_query s) = (Inr (PList []), trace)"
  then have m: "main_step3 post key clicked s =
      (if clicked
         then (s\<lparr>step := 2\<rparr>,
               St_write_debug (search_query s) # trace
                 @ [St_warning No_jobs_found, St_button ''Adjust Preferences'', St_rerun])
       else (s, St_write_debug (search_query s) # trace
                  @ [St_warning No_jobs_found, St_button ''Adjust Preferences'']))"
    by (simp add: main_step3_found)
  show "step (fst (main_step3 post key clicked s)) = (if clicked then 2 else 3)"
    using assms by (simp add: m)
  show "step (fst (main_step3 post key clicked s)) \<noteq> 4"
    using assms by (simp add: m)
  show "jobs (fst (main_step3 post key clicked s)) = jobs s"
    by (simp add: m)
  show "snd (main_step3 post key clicked s) =
          St_write_debug (search_query s) # trace
            @ [St_warning No_jobs_found, St_button ''Adjust Preferences'']
            @ (if clicked then [St_rerun] else [])"
    by (simp add: m)
next
  assume "step (fst (main_step3 post key clicked s)) = 4"
  with assms have r: "key \<noteq> [] \<and>
      (\<exists>found. fst (search_jobs post \<lparr>api_key = key\<rparr> (search_query s)) = Inr found \<and>
                truthy found)"
    by (rule main_step3_step4)
  from r show "key \<noteq> []" by (rule conjunct1)
  from r show "\<exists>found. fst (search_jobs post \<lparr>api_key = key\<rparr> (search_query s)) = Inr found \<and>
                truthy found" by (rule conjunct2)
next
  fix js
  assume h: "key \<noteq> [] \<and>
    fst (search_jobs post \<lparr>api_key = key\<rparr> (search_query s)) = Inr (PList js)"
  obtain res trace' where
    sj: "search_jobs post \<lparr>api_key = key\<rparr> (search_query s) = (res, trace')"
    by (cases "search_jobs post \<lparr>api_key = key\<rparr> (search_query s)")
  with h have "search_jobs post \<lparr>api_key = key\<rparr> (search_query s) = (Inr (PList js), trace')"
    by simp
  with h have "main_step3 post key clicked s =
      (if js \<noteq> []
         then (s\<lparr>jobs := Some (PList js), step := 4\<rparr>,
               St_write_debug (search_query s) # trace' @ [St_rerun])
       else if clicked
         then (s\<lparr>step := 2\<rparr>,
               St_write_debug (search_query s) # trace'
                 @ [St_warning No_jobs_found, St_button ''Adjust Preferences'', St_rerun])
       else (s, St_write_debug (search_query s) # trace'
                  @ [St_warning No_jobs_found, St_button ''Adjust Preferences'']))"
    by (simp add: main_step3_found)
  then show "(step (fst (main_step3 post key clicked s)) = 4) = (js \<noteq> [])"
    using assms by simp
qed

text \<open>The theorem applied to a session whose search is answered with status 200 and an
  empty list, once with and once without a click on the button.\<close>

theorem searching_step_empty_result_witness:
  "step \<lparr>step = 3,
         resume_analysis = Some [(''technical_skills'', PList [PStr ''Python'']),
                                 (''seniority_level'', PStr ''mid'')],
         job_preferences = Some [(''title'', PStr ''Engineer''), (''remote'', PStr ''Any'')],
         jobs = None\<rparr> = 3 \<and>
   ''key'' \<noteq> [] \<and>
   fst (search_jobs
          (\<lambda>url hs q. Returned \<lparr>status_code = 200, response_text = ''[]'', json = Inr (PList [])\<rparr>)
          \<lparr>api_key = ''key''\<rparr>
          (search_query \<lparr>step = 3,
             resume_analysis = Some [(''technical_skills'', PList [PStr ''Python'']),
                                     (''seniority_level'', PStr ''mid'')],
             job_preferences = Some [(''title'', PStr ''Engineer''), (''remote'', PStr ''Any'')],
             jobs = None\<rparr>)) = Inr (PList []) \<and>
   step (fst (main_step3
          (\<lambda>url hs q. Returned \<lparr>status_code = 200, response_text = ''[]'', json = Inr (PList [])\<rparr>)
          ''key'' True
          \<lparr>step = 3,
           resume_analysis = Some [(''technical_skills'', PList [PStr ''Python'']),
                                   (''seniority_level'', PStr ''mid'')],
           job_preferences = Some [(''title'', PStr ''Engineer''), (''remote'', PStr ''Any'')],
           jobs = None\<rparr>)) = 2 \<and>
   step (fst (main_step3
          (\<lambda>url hs q. Returned \<lparr>status_code = 200, response_text = ''[]'', json = Inr (PList [])\<rparr>)
          ''key'' False
          \<lparr>step = 3,
           resume_analysis = Some [(''technical_skills'', PList [PStr ''Python'']),
                                   (''seniority_level'', PStr ''mid'')],
           job_preferences = Some [(''title'', PStr ''Engineer''), (''remote'', PStr ''Any'')],
           jobs = None\<rparr>)) = 3"
proof -
  let ?post = "\<lambda>(url::string) (hs::(string \<times> string) list) (q::dict).
                 Returned \<lparr>status_code = 200, response_text = ''[]'', json = Inr (PList [])\<rparr>"
  let ?s = "\<lparr>step = 3,
             resume_analysis = Some [(''technical_skills'', PList [PStr ''Python'']),
                                     (''seniority_level'', PStr ''mid'')],
             job_preferences = Some [(''title'', PStr ''Engineer''), (''remote'', PStr ''Any'')],
             jobs = None\<rparr>"
  have st: "step ?s = 3" by simp
  have key: "''key'' \<noteq> []" by simp
  have lvl: "str_or_falsy (dict_get (search_query ?s) ''experience_level'')"
    by (simp add: search_query_def dict_get_def dict_get_default_def str_or_falsy_def)
  obtain aq where aq: "format_search_query (search_query ?s) = Inr aq"
    using format_search_query_typed [OF lvl] by blast
  have sj: "search_jobs ?post \<lparr>api_key = ''key''\<rparr> (search_query ?s) =
              (Inr (PList []),
               [Print_sending_query aq,
                Http_post (THEIRSTACK_API_URL @ ''/jobs/search'') (headers \<lparr>api_key = ''key''\<rparr>) aq])"
    by (simp add: search_jobs_def search_jobs_try_def raise_for_status_def aq)
  then have f: "fst (search_jobs ?post \<lparr>api_key = ''key''\<rparr> (search_query ?s)) = Inr (PList [])"
    by simp
  from searching_step_empty_result [OF st, of "''key''" ?post _ True] key sj
  have a: "step (fst (main_step3 ?post ''key'' True ?s)) = 2"
    by (simp del: One_nat_def)
  from searching_step_empty_result [OF st, of "''key''" ?post _ False] key sj
  have b: "step (fst (main_step3 ?post ''key'' False ?s)) = 3"
    by (simp del: One_nat_def)
  from st key f a b show ?thesis by (intro conjI)
qed

end
